theory Spec2Isabelle
  imports Main "HOL-Library.Word"
begin

section \<open>The simple player of RAOP-Player (examples/simple\_player.py)\<close>

text \<open>
  The script streams a file to an AirPlay receiver through the \<open>libraop\<close> binding.
  It has three parts: the key handler \<open>handle_key_event\<close> (run on the key listener
  thread in interactive mode), the start-up code of \<open>__main__\<close> and the streaming
  loop of \<open>__main__\<close>.

  Python integers are unbounded, so every number is an \<open>int\<close>. The calls into
  \<open>libraop\<close> and \<open>print\<close> are recorded, in program order, in a list of events;
  the answers of the outside world (clock readings, what \<open>connect\<close>,
  \<open>accept_frames\<close> and \<open>is_playing\<close> return, the value of the shared variable
  \<open>status\<close> at the moment the loop reads it) are inputs of the model. Calls of the
  standard library (\<open>open\<close>, \<open>read\<close>, \<open>write\<close>, \<open>int\<close>) are taken to
  return normally; the exits the script itself performs are results of the model.
\<close>

subsection \<open>Names imported from libraop\<close>

text \<open>
  \<open>MS2NTP\<close>, \<open>NTP2MS\<close>, \<open>TS2NTP\<close>, \<open>TS2MS\<close>, \<open>MS2TS\<close> and
  \<open>MAX_SAMPLES_PER_CHUNK\<close> are imported from \<open>libraop\<close>, whose source is not part
  of the script. The conversions are parameters of the model: a record of functions.
  \<open>SECNTP\<close> only formats a clock value for printing; a printed line carries the clock
  value itself.
\<close>

record conv =
  MS2NTP :: "int \<Rightarrow> int"
  NTP2MS :: "int \<Rightarrow> int"
  TS2NTP :: "int \<Rightarrow> int \<Rightarrow> int"
  TS2MS :: "int \<Rightarrow> int \<Rightarrow> int"
  MS2TS :: "int \<Rightarrow> int \<Rightarrow> int"

type_synonym byte = "8 word"

datatype status = PLAYING | STOPPED | PAUSED

datatype codec = RAOP_PCM | RAOP_ALAC

datatype crypto = RAOP_CLEAR | RAOP_RSA

text \<open>The lines the script prints, each with the values its f-string formats.\<close>

datatype line =
    StoppedAt int
  | PauseAt int
  | RestartedAt int
  | CannotConnect string
  | ConnectedTo string int int
  | AudioStartsAt int int int
  | StatusLine int int int
  | KeepaliveLine int int int

datatype event =
    SetLogLevel int
  | WriteFile string string
  | NewClient string codec nat int crypto "string option" "string option" int
  | ReadStartFile string
  | OpenInfile string
  | Connect int
  | StartListener
  | StartAt int
  | Stop
  | Pause
  | Flush
  | Keepalive
  | SendChunk "byte list"
  | CloseInfile
  | Disconnect
  | Destroy
  | Print line

text \<open>\<open>exit(n)\<close> raises \<open>SystemExit\<close>; \<open>exit()\<close> raises it with no code.\<close>

datatype exc = SystemExit "int option"

text \<open>
  The exit status that goes with the way Python code ends: \<open>None\<close> is reaching
  the end of the script, \<open>SystemExit\<close> with no code is status 0, with a code that
  code.
\<close>

fun exit_status :: "exc option \<Rightarrow> int" where
  "exit_status None = 0"
| "exit_status (Some (SystemExit None)) = 0"
| "exit_status (Some (SystemExit (Some n))) = n"

subsection \<open>The key handler\<close>

text \<open>
  \<open>handle_key_event\<close> reads and writes the global \<open>status\<close> and calls the client.
  \<open>lat\<close> and \<open>rate\<close> are \<open>client.latency\<close> and \<open>client.sample_rate\<close>;
  \<open>clk n\<close> is what the \<open>n\<close>-th call of \<open>get_ntp()\<close> inside the handler returns.
  The result is the exception the handler raises, if any, the new \<open>status\<close> and the
  events so far.
\<close>

definition handle_key_event ::
  "conv \<Rightarrow> int \<Rightarrow> int \<Rightarrow> (nat \<Rightarrow> int) \<Rightarrow> string \<Rightarrow> status \<times> event list
     \<Rightarrow> exc option \<times> status \<times> event list" where
  "handle_key_event cnv lat rate clk key = (\<lambda>(st, evs).
     if key = ''s'' \<or> key = ''q'' then
       (Some (SystemExit (Some 0)), STOPPED, evs @ [Stop, Flush, Print (StoppedAt (clk 0))])
     else if key = ''p'' \<and> st = PLAYING then
       (None, PAUSED, evs @ [Pause, Flush, Print (PauseAt (clk 0))])
     else if key = ''r'' then
       (let now = clk 0;
            start_at = now + MS2NTP cnv 200 - TS2NTP cnv lat rate
        in (None, PLAYING, evs @ [StartAt start_at, Print (RestartedAt (clk 1))]))
     else (None, st, evs))"

text \<open>
  The listener thread of \<open>setup_keylistener\<close>: it hands every key to the callback and
  never returns by itself; an exception of the callback leaves the \<open>while True\<close> and
  ends the thread. Each key comes with the clock of its handler call. The result
  \<open>None\<close> means the thread waits for the next key.
\<close>

fun listen ::
  "conv \<Rightarrow> int \<Rightarrow> int \<Rightarrow> ((nat \<Rightarrow> int) \<times> string) list \<Rightarrow> status \<times> event list
     \<Rightarrow> exc option \<times> status \<times> event list" where
  "listen cnv lat rate [] (st, evs) = (None, st, evs)"
| "listen cnv lat rate ((clk, key) # keys) (st, evs) =
     (case handle_key_event cnv lat rate clk key (st, evs) of
        (Some e, st', evs') \<Rightarrow> (Some e, st', evs')
      | (None, st', evs') \<Rightarrow> listen cnv lat rate keys (st', evs'))"

subsection \<open>Delaying the start\<close>

text \<open>
  Lines 142 to 148 of the script: \<open>start\<close> is \<open>args.start\<close> or the number read
  from the start file, \<open>wait\<close> is \<open>args.wait\<close>, \<open>now\<close> is the clock reading
  and \<open>lat\<close>, \<open>rate\<close> are the client's latency and sample rate after connect.
  A Python integer is true when it is not 0.
\<close>

definition delay_start :: "conv \<Rightarrow> int \<Rightarrow> int \<Rightarrow> int \<Rightarrow> int \<Rightarrow> int \<Rightarrow> event list" where
  "delay_start cnv start wait now lat rate =
     (if start \<noteq> 0 \<or> wait \<noteq> 0 then
        (let ntp_latency = TS2NTP cnv lat rate;
             start_at = (if start \<noteq> 0 then start else now) + MS2NTP cnv wait - ntp_latency;
             in_time = (if start_at + ntp_latency > now
                        then NTP2MS cnv (start_at - now + ntp_latency) else 0)
         in [Print (AudioStartsAt now start_at in_time), StartAt start_at])
      else [])"

subsection \<open>The streaming loop\<close>

text \<open>
  What stays fixed while the loop runs: the conversions, \<open>MAX_SAMPLES_PER_CHUNK\<close>,
  the clock reading \<open>start\<close> taken before the loop, \<open>latency\<close> (the client's
  latency after connect) and the client's sample rate.
\<close>

record session =
  cv :: conv
  max_samples :: nat
  start :: int
  latency :: int
  sample_rate :: int

text \<open>The variables of the loop, the unread rest of the input file and the events.\<close>

record loop_state =
  last_ntp :: int
  frames :: int
  last_keepalive :: int
  infile :: "byte list"
  out :: "event list"

text \<open>
  What one iteration observes: the clock at its top, the value of the global
  \<open>status\<close> when the streaming condition reads it (the key handler writes it on the
  listener thread), what \<open>accept_frames()\<close> returns if it is asked, and
  \<open>is_playing\<close> at the end of the iteration.
\<close>

record obs =
  obs_now :: int
  obs_status :: status
  obs_accept :: bool
  obs_playing :: bool

text \<open>The block under "Update the last ntp".\<close>

definition update_last :: "session \<Rightarrow> int \<Rightarrow> loop_state \<Rightarrow> loop_state" where
  "update_last c now s =
     (if now - last_ntp s > MS2NTP (cv c) 1000 then
        (let s' = s\<lparr>last_ntp := now\<rparr> in
         if frames s' \<noteq> 0 \<and> frames s' > latency c then
           s'\<lparr>out := out s' @ [Print (StatusLine now (NTP2MS (cv c) (now - start c))
                    (TS2MS (cv c) (frames s' - latency c) (sample_rate c)))]\<rparr>
         else s')
      else s)"

text \<open>The block under "Send a keep alive message every 30 seconds for homepods".\<close>

definition send_keepalive :: "session \<Rightarrow> int \<Rightarrow> loop_state \<Rightarrow> loop_state" where
  "send_keepalive c now s =
     (if NTP2MS (cv c) (now - last_keepalive s) \<ge> 30000 then
        s\<lparr>out := out s @ [Print (KeepaliveLine now (NTP2MS (cv c) (now - start c))
                   (TS2MS (cv c) (frames s - latency c) (sample_rate c))), Keepalive],
          last_keepalive := now\<rparr>
      else s)"

text \<open>
  The block under "Stream the data". \<open>infile.read(n)\<close> returns the next \<open>n\<close> bytes
  of the file, or all that is left when fewer remain; an empty result is false.
\<close>

definition stream_data :: "session \<Rightarrow> obs \<Rightarrow> loop_state \<Rightarrow> loop_state" where
  "stream_data c ob s =
     (if obs_status ob = PLAYING \<and> obs_accept ob \<and> take (max_samples c * 4) (infile s) \<noteq> [] then
        (let data = take (max_samples c * 4) (infile s) in
         s\<lparr>infile := drop (max_samples c * 4) (infile s),
           out := out s @ [SendChunk data],
           frames := frames s + int (length data) div 4\<rparr>)
      else s)"

definition loop_body :: "session \<Rightarrow> obs \<Rightarrow> loop_state \<Rightarrow> loop_state" where
  "loop_body c ob s =
     stream_data c ob (send_keepalive c (obs_now ob) (update_last c (obs_now ob) s))"

text \<open>
  The loop runs its body once per observation and leaves when \<open>is_playing\<close> is false
  at the end of an iteration. \<open>Exited\<close> is the state at the exit; \<open>Running\<close> is
  the state after the last observation when the loop has not left by then.
\<close>

datatype 'a run = Exited 'a | Running 'a

fun run_state :: "'a run \<Rightarrow> 'a" where
  "run_state (Exited s) = s"
| "run_state (Running s) = s"

fun stream_loop :: "session \<Rightarrow> obs list \<Rightarrow> loop_state \<Rightarrow> loop_state run" where
  "stream_loop c [] s = Running s"
| "stream_loop c (ob # obs) s =
     (let s' = loop_body c ob s in
      if obs_playing ob then stream_loop c obs s' else Exited s')"

subsection \<open>The script\<close>

text \<open>The parsed command line, with the defaults of \<open>setup_args\<close> filled in.\<close>

record args =
  server_ip :: string
  filename :: string
  ntp_file :: "string option"
  port :: int
  volume :: int
  arg_latency :: "int option"
  alac :: bool
  wait :: int
  arg_start :: int
  start_file :: "string option"
  encrypt :: bool
  password :: "string option"
  secret :: "string option"
  debug :: int
  interactive :: bool

text \<open>
  What the outside world answers during one run: the clock at the three places the
  start-up code reads it, the number in the start file, the bytes of the input file,
  the result of \<open>connect\<close>, the client's latency and sample rate after connect, and
  the observations of the loop's iterations.
\<close>

record world =
  dump_clock :: int
  start_file_value :: int
  input_bytes :: "byte list"
  connect_ok :: bool
  client_latency :: int
  client_rate :: int
  delay_clock :: int
  begin_clock :: int
  iterations :: "obs list"

text \<open>An optional file name is true in Python when it is given and not empty.\<close>

fun file_arg :: "string option \<Rightarrow> string option" where
  "file_arg None = None"
| "file_arg (Some f) = (if f = [] then None else Some f)"

text \<open>\<open>str\<close> of an integer: its decimal digits, after a minus sign when negative.\<close>

definition digit_char :: "nat \<Rightarrow> char" where
  "digit_char d = char_of (48 + d)"

function dec_digits :: "nat \<Rightarrow> string" where
  "dec_digits n = (if n < 10 then [digit_char n]
                   else dec_digits (n div 10) @ [digit_char (n mod 10)])"
  by pat_completeness auto
termination
  by (relation "measure id") auto

declare dec_digits.simps [simp del]

definition py_str :: "int \<Rightarrow> string" where
  "py_str i = (if i < 0 then CHR ''-'' # dec_digits (nat (- i)) else dec_digits (nat i))"

text \<open>The number a string of decimal digits denotes.\<close>

definition dec_value :: "string \<Rightarrow> nat" where
  "dec_value ds = foldl (\<lambda>v ch. 10 * v + (of_char ch - 48)) 0 ds"

text \<open>
  How a run ends: the main thread ends, by an exception or at the end of the script,
  or the loop is still running after the last observation.
\<close>

datatype ending = Ended "exc option" | StillStreaming

definition main :: "conv \<Rightarrow> nat \<Rightarrow> args \<Rightarrow> world \<Rightarrow> event list \<times> ending" where
  "main cnv n a w =
     (let evs0 = [SetLogLevel (debug a)] in
      case file_arg (ntp_file a) of
        Some f \<Rightarrow> (evs0 @ [WriteFile f (py_str (dump_clock w))], Ended (Some (SystemExit None)))
      | None \<Rightarrow>
         (let latency0 = (case arg_latency a of
                            Some l \<Rightarrow> if l \<ge> 0 then l else MS2TS cnv 1000 44100
                          | None \<Rightarrow> MS2TS cnv 1000 44100);
              evs1 = evs0 @ [NewClient (server_ip a) (if alac a then RAOP_ALAC else RAOP_PCM) n
                               latency0 (if encrypt a then RAOP_RSA else RAOP_CLEAR)
                               (password a) (secret a) (volume a)];
              start0 = (case file_arg (start_file a) of
                          Some f \<Rightarrow> start_file_value w | None \<Rightarrow> arg_start a);
              evs2 = evs1 @ (case file_arg (start_file a) of
                               Some f \<Rightarrow> [ReadStartFile f] | None \<Rightarrow> [])
                          @ [OpenInfile (filename a), Connect (port a)]
          in
          if \<not> connect_ok w then
            (evs2 @ [Destroy, Print (CannotConnect (server_ip a))],
             Ended (Some (SystemExit (Some 1))))
          else
            (let evs3 = evs2 @ [Print (ConnectedTo (server_ip a) (port a)
                                  (TS2MS cnv (client_latency w) (client_rate w)))];
                 evs4 = evs3 @ delay_start cnv start0 (wait a) (delay_clock w)
                                  (client_latency w) (client_rate w);
                 c = \<lparr>cv = cnv, max_samples = n, start = begin_clock w,
                      latency = client_latency w, sample_rate = client_rate w\<rparr>;
                 s0 = \<lparr>last_ntp = 0, frames = 0, last_keepalive = begin_clock w,
                       infile = input_bytes w,
                       out = evs4 @ (if interactive a then [StartListener] else [])\<rparr>
             in
             case stream_loop c (iterations w) s0 of
               Exited s \<Rightarrow> (out s @ [CloseInfile, Disconnect, Destroy], Ended None)
             | Running s \<Rightarrow> (out s, StillStreaming))))"

subsection \<open>The two threads of interactive mode\<close>

text \<open>
  With \<open>-i\<close> the script runs two threads that share the global \<open>status\<close> and the
  client: the main thread in the streaming loop, and the daemon thread started by
  \<open>setup_keylistener\<close>, which calls \<open>handle_key_event\<close> for every key. A step of
  the process is a key taken by the listener, with the clock of that handler call, or
  one iteration of the loop, with what it observes; the \<open>status\<close> the iteration reads
  is the shared one.

  \<open>exit(0)\<close> in the handler raises \<open>SystemExit\<close> on the listener thread. An
  exception that leaves the target of a \<open>Thread\<close> ends that thread and no other (the
  comment at line 86: ``Kill the key listener thread. The main thread will terminate
  in every case.''), so the listener keeps the exception it ended with and takes no
  further key, while the main thread goes on. The process ends when the main thread has
  left the loop and reached the end of the script, which is exit status
  \<open>exit_status None\<close>; the daemon thread does not keep the process alive.
\<close>

datatype step = Key "nat \<Rightarrow> int" string | Iteration obs

record process =
  shared_status :: status
  listener :: "exc option"
  main_thread :: "loop_state run"

definition process_step :: "session \<Rightarrow> step \<Rightarrow> process \<Rightarrow> process" where
  "process_step c st p =
     (case main_thread p of
        Exited s \<Rightarrow> p
      | Running s \<Rightarrow>
          (case st of
             Key clk key \<Rightarrow>
               (case listener p of
                  Some e \<Rightarrow> p
                | None \<Rightarrow>
                    (case handle_key_event (cv c) (latency c) (sample_rate c) clk key
                            (shared_status p, out s) of
                       (e, st', evs') \<Rightarrow>
                         p\<lparr>shared_status := st', listener := e,
                           main_thread := Running (s\<lparr>out := evs'\<rparr>)\<rparr>))
           | Iteration ob \<Rightarrow>
               (let s' = loop_body c (ob\<lparr>obs_status := shared_status p\<rparr>) s
                in p\<lparr>main_thread := (if obs_playing ob then Running s' else Exited s')\<rparr>)))"

fun process_run :: "session \<Rightarrow> step list \<Rightarrow> process \<Rightarrow> process" where
  "process_run c [] p = p"
| "process_run c (st # sts) p = process_run c sts (process_step c st p)"

text \<open>
  The exit status of the process once it has ended, and the events so far: after the
  loop the main thread closes the input and disconnects and destroys the client.
\<close>

definition process_exit :: "process \<Rightarrow> int option" where
  "process_exit p =
     (case main_thread p of Exited s \<Rightarrow> Some (exit_status None) | Running s \<Rightarrow> None)"

definition process_events :: "process \<Rightarrow> event list" where
  "process_events p =
     (case main_thread p of
        Exited s \<Rightarrow> out s @ [CloseInfile, Disconnect, Destroy]
      | Running s \<Rightarrow> out s)"

subsection \<open>A concrete set of conversions\<close>

text \<open>
  Modelled from the spec: the conversion helpers \<open>MS2NTP\<close>, \<open>NTP2MS\<close>,
  \<open>TS2NTP\<close>, \<open>TS2MS\<close> and \<open>MS2TS\<close> of libraop are not in the script. The spec
  describes them as integer arithmetic that truncates toward zero, with a fixed scale
  between the shared time and seconds; the scale here is that of an NTP timestamp,
  \<open>2 ^ 32\<close> units per second. The theorems below hold for every record of
  conversions unless they name this one; it is the instance at which they are
  exercised, and the one at which the sign of a truncated value is settled.
\<close>

definition tdiv :: "int \<Rightarrow> int \<Rightarrow> int" where
  "tdiv a b = sgn a * sgn b * (\<bar>a\<bar> div \<bar>b\<bar>)"

definition ntp_conv :: conv where
  "ntp_conv =
     \<lparr>MS2NTP = (\<lambda>ms. tdiv (ms * 2 ^ 32) 1000),
      NTP2MS = (\<lambda>ntp. tdiv (ntp * 1000) (2 ^ 32)),
      TS2NTP = (\<lambda>ts rate. tdiv (ts * 2 ^ 32) rate),
      TS2MS = (\<lambda>ts rate. tdiv (ts * 1000) rate),
      MS2TS = (\<lambda>ms rate. tdiv (ms * rate) 1000)\<rparr>"

subsection \<open>Reading the events of a run\<close>

text \<open>The times handed to \<open>start_at\<close>, in call order.\<close>

fun start_at_calls :: "event list \<Rightarrow> int list" where
  "start_at_calls [] = []"
| "start_at_calls (StartAt t # es) = t # start_at_calls es"
| "start_at_calls (e # es) = start_at_calls es"

text \<open>The status lines, the keep alive lines and the chunks sent, in order.\<close>

fun status_lines :: "event list \<Rightarrow> (int \<times> int \<times> int) list" where
  "status_lines [] = []"
| "status_lines (Print (StatusLine t e p) # es) = (t, e, p) # status_lines es"
| "status_lines (e # es) = status_lines es"

fun keepalive_lines :: "event list \<Rightarrow> (int \<times> int \<times> int) list" where
  "keepalive_lines [] = []"
| "keepalive_lines (Print (KeepaliveLine t e p) # es) = (t, e, p) # keepalive_lines es"
| "keepalive_lines (e # es) = keepalive_lines es"

fun sent_chunks :: "event list \<Rightarrow> byte list list" where
  "sent_chunks [] = []"
| "sent_chunks (SendChunk d # es) = d # sent_chunks es"
| "sent_chunks (e # es) = sent_chunks es"

text \<open>Every element of the list is related to the one after it.\<close>

fun successive :: "('a \<Rightarrow> 'a \<Rightarrow> bool) \<Rightarrow> 'a list \<Rightarrow> bool" where
  "successive R [] = True"
| "successive R [x] = True"
| "successive R (x # y # ys) = (R x y \<and> successive R (y # ys))"

text \<open>The events of the start-up code up to and including the call of \<open>connect\<close>.\<close>

definition before_loop :: "conv \<Rightarrow> args \<Rightarrow> world \<Rightarrow> nat \<Rightarrow> event list" where
  "before_loop cnv a w n =
     [SetLogLevel (debug a),
      NewClient (server_ip a) (if alac a then RAOP_ALAC else RAOP_PCM) n
        (case arg_latency a of Some l \<Rightarrow> if l \<ge> 0 then l else MS2TS cnv 1000 44100
                             | None \<Rightarrow> MS2TS cnv 1000 44100)
        (if encrypt a then RAOP_RSA else RAOP_CLEAR) (password a) (secret a) (volume a)]
     @ (case file_arg (start_file a) of Some f \<Rightarrow> [ReadStartFile f] | None \<Rightarrow> [])
     @ [OpenInfile (filename a), Connect (port a)]"

text \<open>The events each of the three blocks of the loop body appends.\<close>

definition status_events :: "session \<Rightarrow> int \<Rightarrow> loop_state \<Rightarrow> event list" where
  "status_events c now s =
     (if now - last_ntp s > MS2NTP (cv c) 1000 \<and> frames s \<noteq> 0 \<and> frames s > latency c
      then [Print (StatusLine now (NTP2MS (cv c) (now - start c))
                     (TS2MS (cv c) (frames s - latency c) (sample_rate c)))]
      else [])"

definition keepalive_events :: "session \<Rightarrow> int \<Rightarrow> loop_state \<Rightarrow> event list" where
  "keepalive_events c now s =
     (if NTP2MS (cv c) (now - last_keepalive s) \<ge> 30000
      then [Print (KeepaliveLine now (NTP2MS (cv c) (now - start c))
                     (TS2MS (cv c) (frames s - latency c) (sample_rate c))), Keepalive]
      else [])"

definition chunk_events :: "session \<Rightarrow> obs \<Rightarrow> loop_state \<Rightarrow> event list" where
  "chunk_events c ob s =
     (if obs_status ob = PLAYING \<and> obs_accept ob \<and> take (max_samples c * 4) (infile s) \<noteq> []
      then [SendChunk (take (max_samples c * 4) (infile s))]
      else [])"

text \<open>The events one iteration appends, and those a whole run of the loop appends.\<close>

definition iteration_events :: "session \<Rightarrow> obs \<Rightarrow> loop_state \<Rightarrow> event list" where
  "iteration_events c ob s = drop (length (out s)) (out (loop_body c ob s))"

definition run_events :: "session \<Rightarrow> obs list \<Rightarrow> loop_state \<Rightarrow> event list" where
  "run_events c obs s = drop (length (out s)) (out (run_state (stream_loop c obs s)))"

text \<open>
  The body run once per observation, whatever \<open>is_playing\<close> says, and the
  observations the loop gets to: all up to and including the first one at which
  \<open>is_playing\<close> is false.
\<close>

fun iterate :: "session \<Rightarrow> obs list \<Rightarrow> loop_state \<Rightarrow> loop_state" where
  "iterate c [] s = s"
| "iterate c (ob # obs) s = iterate c obs (loop_body c ob s)"

fun executed :: "obs list \<Rightarrow> obs list" where
  "executed [] = []"
| "executed (ob # obs) = ob # (if obs_playing ob then executed obs else [])"

text \<open>
  The chunks as the specification words them: walking through the iterations, one
  chunk of at most \<open>n\<close> bytes is due at each iteration at which the state is
  PLAYING, the client accepts frames and the source has bytes left.
\<close>

fun chunks_due :: "nat \<Rightarrow> obs list \<Rightarrow> byte list \<Rightarrow> byte list list" where
  "chunks_due n [] src = []"
| "chunks_due n (ob # obs) src =
     (if obs_status ob = PLAYING \<and> obs_accept ob \<and> src \<noteq> []
      then take n src # chunks_due n obs (drop n src)
      else chunks_due n obs src)"

text \<open>The steps at which the main thread leaves the loop.\<close>

fun leaving :: "step \<Rightarrow> bool" where
  "leaving (Key clk key) = False"
| "leaving (Iteration ob) = (\<not> obs_playing ob)"

subsection \<open>Concrete inputs\<close>

definition ex_args :: args where
  "ex_args = \<lparr>server_ip = ''192.168.1.20'', filename = ''song.pcm'', ntp_file = None,
     port = 5000, volume = 50, arg_latency = None, alac = False, wait = 500, arg_start = 0,
     start_file = None, encrypt = False, password = None, secret = None, debug = 0,
     interactive = False\<rparr>"

definition ex_world :: world where
  "ex_world = \<lparr>dump_clock = 42949672960, start_file_value = 0,
     input_bytes = [1, 2, 3, 4, 5, 6, 7, 8],
     connect_ok = True, client_latency = 44100, client_rate = 44100,
     delay_clock = 42949672960, begin_clock = 42949672960,
     iterations = [\<lparr>obs_now = 42949672960, obs_status = PLAYING, obs_accept = True,
                     obs_playing = False\<rparr>]\<rparr>"

definition ex_session :: session where
  "ex_session = \<lparr>cv = ntp_conv, max_samples = 1, start = 42949672960, latency = 2,
     sample_rate = 44100\<rparr>"

definition ex_state :: loop_state where
  "ex_state = \<lparr>last_ntp = 0, frames = 0, last_keepalive = 42949672960,
     infile = [1, 2, 3, 4, 5, 6], out = []\<rparr>"

definition ex_obs :: "int \<Rightarrow> status \<Rightarrow> bool \<Rightarrow> bool \<Rightarrow> obs" where
  "ex_obs t st acc pl = \<lparr>obs_now = t, obs_status = st, obs_accept = acc, obs_playing = pl\<rparr>"

definition ex_late :: loop_state where
  "ex_late = \<lparr>last_ntp = 42949672960, frames = 5, last_keepalive = 42949672960,
     infile = [], out = []\<rparr>"

text \<open>
  A process in interactive mode, streaming with the listener waiting for a key, and
  the clock of a handler call.
\<close>

definition ex_process :: process where
  "ex_process = \<lparr>shared_status = PLAYING, listener = None, main_thread = Running ex_late\<rparr>"

definition ex_clock :: "nat \<Rightarrow> int" where
  "ex_clock n = 47244640256 + int n"

definition ex_dump_args :: args where
  "ex_dump_args = ex_args\<lparr>ntp_file := Some ''ntp.txt''\<rparr>"

section \<open>Properties\<close>

subsection \<open>The events of the loop body\<close>

lemma start_at_calls_append: "start_at_calls (xs @ ys) = start_at_calls xs @ start_at_calls ys"
  by (induction xs rule: start_at_calls.induct) auto

lemma start_at_calls_update_last: "start_at_calls (out (update_last c now s)) = start_at_calls (out s)"
  by (simp add: update_last_def Let_def start_at_calls_append)

lemma start_at_calls_send_keepalive: "start_at_calls (out (send_keepalive c now s)) = start_at_calls (out s)"
  by (simp add: send_keepalive_def start_at_calls_append)

lemma start_at_calls_stream_data: "start_at_calls (out (stream_data c ob s)) = start_at_calls (out s)"
  by (simp add: stream_data_def Let_def start_at_calls_append)

lemma start_at_calls_loop_body: "start_at_calls (out (loop_body c ob s)) = start_at_calls (out s)"
  by (simp add: loop_body_def start_at_calls_update_last start_at_calls_send_keepalive start_at_calls_stream_data)
lemma status_lines_append: "status_lines (xs @ ys) = status_lines xs @ status_lines ys"
  by (induction xs rule: status_lines.induct) auto

lemma keepalive_lines_append: "keepalive_lines (xs @ ys) = keepalive_lines xs @ keepalive_lines ys"
  by (induction xs rule: keepalive_lines.induct) auto

lemma sent_chunks_append: "sent_chunks (xs @ ys) = sent_chunks xs @ sent_chunks ys"
  by (induction xs rule: sent_chunks.induct) auto
lemma update_last_fields:
  "out (update_last c now s) = out s @ status_events c now s"
  "last_ntp (update_last c now s) = (if now - last_ntp s > MS2NTP (cv c) 1000 then now else last_ntp s)"
  "frames (update_last c now s) = frames s"
  "last_keepalive (update_last c now s) = last_keepalive s"
  "infile (update_last c now s) = infile s"
  by (simp_all add: update_last_def status_events_def Let_def)

lemma send_keepalive_fields:
  "out (send_keepalive c now s) = out s @ keepalive_events c now s"
  "last_ntp (send_keepalive c now s) = last_ntp s"
  "frames (send_keepalive c now s) = frames s"
  "last_keepalive (send_keepalive c now s) =
     (if NTP2MS (cv c) (now - last_keepalive s) \<ge> 30000 then now else last_keepalive s)"
  "infile (send_keepalive c now s) = infile s"
  by (simp_all add: send_keepalive_def keepalive_events_def)

lemma stream_data_fields:
  "out (stream_data c ob s) = out s @ chunk_events c ob s"
  "last_ntp (stream_data c ob s) = last_ntp s"
  "frames (stream_data c ob s) = frames s + (\<Sum>d\<leftarrow>sent_chunks (chunk_events c ob s). int (length d) div 4)"
  "last_keepalive (stream_data c ob s) = last_keepalive s"
  "infile (stream_data c ob s) =
     (if obs_status ob = PLAYING \<and> obs_accept ob then drop (max_samples c * 4) (infile s) else infile s)"
  by (auto simp add: stream_data_def chunk_events_def Let_def)

lemma loop_body_fields:
  "out (loop_body c ob s) =
     out s @ status_events c (obs_now ob) s @ keepalive_events c (obs_now ob) s @ chunk_events c ob s"
  "last_ntp (loop_body c ob s) =
     (if obs_now ob - last_ntp s > MS2NTP (cv c) 1000 then obs_now ob else last_ntp s)"
  "frames (loop_body c ob s) = frames s + (\<Sum>d\<leftarrow>sent_chunks (chunk_events c ob s). int (length d) div 4)"
  "last_keepalive (loop_body c ob s) =
     (if NTP2MS (cv c) (obs_now ob - last_keepalive s) \<ge> 30000 then obs_now ob else last_keepalive s)"
  "infile (loop_body c ob s) =
     (if obs_status ob = PLAYING \<and> obs_accept ob then drop (max_samples c * 4) (infile s) else infile s)"
  by (simp_all add: loop_body_def stream_data_fields send_keepalive_fields update_last_fields
        chunk_events_def keepalive_events_def status_events_def)

lemma iteration_events_eq:
  "iteration_events c ob s =
     status_events c (obs_now ob) s @ keepalive_events c (obs_now ob) s @ chunk_events c ob s"
  by (simp add: iteration_events_def loop_body_fields(1))

lemma out_loop_body: "out (loop_body c ob s) = out s @ iteration_events c ob s"
  by (simp add: iteration_events_eq loop_body_fields(1))

lemma out_stream_loop: "\<exists>es. out (run_state (stream_loop c obs s)) = out s @ es"
proof (induction obs arbitrary: s)
  case Nil
  show ?case by simp
next
  case (Cons ob obs)
  obtain es where "out (run_state (stream_loop c obs (loop_body c ob s))) = out (loop_body c ob s) @ es"
    using Cons.IH by blast
  then show ?case by (simp add: Let_def out_loop_body)
qed

lemma out_run_events: "out (run_state (stream_loop c obs s)) = out s @ run_events c obs s"
  using out_stream_loop [of c obs s] by (auto simp: run_events_def)

lemma run_events_Nil: "run_events c [] s = []"
  by (simp add: run_events_def)

lemma run_events_Cons:
  "run_events c (ob # obs) s =
     iteration_events c ob s @ (if obs_playing ob then run_events c obs (loop_body c ob s) else [])"
proof -
  have "out s @ run_events c (ob # obs) s =
        out s @ iteration_events c ob s @ (if obs_playing ob then run_events c obs (loop_body c ob s) else [])"
    unfolding out_run_events [symmetric]
    by (simp add: Let_def out_run_events out_loop_body)
  then show ?thesis by simp
qed

lemma run_state_executed: "run_state (stream_loop c obs s) = iterate c (executed obs) s"
  by (induction obs arbitrary: s) (simp_all add: Let_def)

lemma stream_loop_invariant:
  assumes "\<And>ob s. P s \<Longrightarrow> P (loop_body c ob s)" and "P s"
  shows "P (run_state (stream_loop c obs s))"
  using assms(2)
proof (induction obs arbitrary: s)
  case Nil
  then show ?case by simp
next
  case (Cons ob obs)
  have "P (loop_body c ob s)" using Cons.prems assms(1) by blast
  then show ?case using Cons.IH by (simp add: Let_def)
qed

lemma start_at_calls_stream_loop:
  "start_at_calls (out (run_state (stream_loop c obs s))) = start_at_calls (out s)"
  by (rule stream_loop_invariant [where P = "\<lambda>s'. start_at_calls (out s') = start_at_calls (out s)"])
     (simp_all add: start_at_calls_loop_body)

lemma start_at_calls_delay_start:
  "start_at_calls (delay_start cnv start0 wait0 now lat rate) =
     (if start0 \<noteq> 0 \<or> wait0 \<noteq> 0
      then [(if start0 \<noteq> 0 then start0 else now) + MS2NTP cnv wait0 - TS2NTP cnv lat rate]
      else [])"
  by (simp add: delay_start_def Let_def)

subsection \<open>The scheduled start\<close>

lemma main_connected:
  assumes "file_arg (ntp_file a) = None" and "connect_ok w"
  shows "main cnv n a w =
    (case stream_loop \<lparr>cv = cnv, max_samples = n, start = begin_clock w,
                        latency = client_latency w, sample_rate = client_rate w\<rparr>
            (iterations w)
            \<lparr>last_ntp = 0, frames = 0, last_keepalive = begin_clock w, infile = input_bytes w,
              out = before_loop cnv a w n
                @ [Print (ConnectedTo (server_ip a) (port a) (TS2MS cnv (client_latency w) (client_rate w)))]
                @ delay_start cnv (case file_arg (start_file a) of Some f \<Rightarrow> start_file_value w
                                   | None \<Rightarrow> arg_start a)
                     (wait a) (delay_clock w) (client_latency w) (client_rate w)
                @ (if interactive a then [StartListener] else [])\<rparr> of
       Exited s \<Rightarrow> (out s @ [CloseInfile, Disconnect, Destroy], Ended None)
     | Running s \<Rightarrow> (out s, StillStreaming))"
  unfolding main_def Let_def before_loop_def using assms by simp

lemma start_at_calls_before_loop: "start_at_calls (before_loop cnv a w n) = []"
  by (simp add: before_loop_def start_at_calls_append split: option.split)

text \<open>
  Claim C1. In a run that gets past connect, when an absolute start (\<open>base\<close>, from
  the command line or the start file) or a wait other than 0 is given, \<open>start_at\<close> is
  called exactly once in the whole run, with \<open>(base or now) + MS2NTP(wait) -
  TS2NTP(latency, sample_rate)\<close>, where \<open>base or now\<close> is \<open>base\<close> unless it is 0
  and \<open>latency\<close> is the client's latency after connect.
\<close>

theorem scheduled_start:
  assumes "file_arg (ntp_file a) = None" and "connect_ok w"
    and "base = (case file_arg (start_file a) of Some f \<Rightarrow> start_file_value w | None \<Rightarrow> arg_start a)"
    and "base \<noteq> 0 \<or> wait a \<noteq> 0"
  shows "start_at_calls (fst (main cnv n a w)) =
           [(if base \<noteq> 0 then base else delay_clock w) + MS2NTP cnv (wait a)
              - TS2NTP cnv (client_latency w) (client_rate w)]"
proof -
  let ?c = "\<lparr>cv = cnv, max_samples = n, start = begin_clock w,
             latency = client_latency w, sample_rate = client_rate w\<rparr>"
  let ?s0 = "\<lparr>last_ntp = 0, frames = 0, last_keepalive = begin_clock w, infile = input_bytes w,
              out = before_loop cnv a w n
                @ [Print (ConnectedTo (server_ip a) (port a) (TS2MS cnv (client_latency w) (client_rate w)))]
                @ delay_start cnv base (wait a) (delay_clock w) (client_latency w) (client_rate w)
                @ (if interactive a then [StartListener] else [])\<rparr>"
  have m: "start_at_calls (fst (main cnv n a w)) =
           start_at_calls (out (run_state (stream_loop ?c (iterations w) ?s0)))"
    unfolding main_connected [OF assms(1,2)] assms(3)
    by (cases "stream_loop ?c (iterations w) ?s0") (simp_all add: start_at_calls_append assms(3))
  have "start_at_calls (out ?s0) =
          start_at_calls (delay_start cnv base (wait a) (delay_clock w) (client_latency w) (client_rate w))"
    by (simp add: start_at_calls_append start_at_calls_before_loop)
  then show ?thesis
    using assms(4) unfolding m start_at_calls_stream_loop start_at_calls_delay_start by simp
qed

theorem scheduled_start_witness:
  "file_arg (ntp_file ex_args) = None \<and> connect_ok ex_world
   \<and> arg_start ex_args = 0 \<and> wait ex_args = 500
   \<and> start_at_calls (fst (main ntp_conv 352 ex_args ex_world)) = [40802189312]"
  using scheduled_start [of ex_args ex_world 0 ntp_conv 352]
  by (simp add: ex_args_def ex_world_def ntp_conv_def tdiv_def)

subsection \<open>Streaming the data\<close>

lemma sent_chunks_iteration:
  "sent_chunks (iteration_events c ob s) =
     (if obs_status ob = PLAYING \<and> obs_accept ob \<and> take (max_samples c * 4) (infile s) \<noteq> []
      then [take (max_samples c * 4) (infile s)] else [])"
  by (simp add: iteration_events_eq sent_chunks_append status_events_def keepalive_events_def
        chunk_events_def)

lemma sent_chunks_run:
  assumes "0 < max_samples c"
  shows "sent_chunks (run_events c obs s) = chunks_due (max_samples c * 4) (executed obs) (infile s)"
proof (induction obs arbitrary: s)
  case Nil
  then show ?case by (simp add: run_events_Nil)
next
  case (Cons ob obs)
  have tk: "take (max_samples c * 4) (infile s) \<noteq> [] \<longleftrightarrow> infile s \<noteq> []"
    using assms by (cases "infile s") auto
  show ?case
  proof (cases "obs_status ob = PLAYING \<and> obs_accept ob \<and> infile s \<noteq> []")
    case True
    then show ?thesis
      using Cons.IH [of "loop_body c ob s"] tk
      by (simp add: run_events_Cons sent_chunks_append sent_chunks_iteration loop_body_fields(5)
            run_events_Nil)
  next
    case False
    then have inf: "infile (loop_body c ob s) = infile s"
      by (auto simp: loop_body_fields(5))
    from False have "sent_chunks (iteration_events c ob s) = []"
      using tk by (auto simp: sent_chunks_iteration)
    then show ?thesis
      using Cons.IH [of "loop_body c ob s"] False inf
      by (auto simp add: run_events_Cons sent_chunks_append run_events_Nil)
  qed
qed

lemma frames_run:
  "frames (run_state (stream_loop c obs s)) =
     frames s + (\<Sum>d\<leftarrow>sent_chunks (run_events c obs s). int (length d) div 4)"
proof (induction obs arbitrary: s)
  case Nil
  then show ?case by (simp add: run_events_Nil)
next
  case (Cons ob obs)
  have "sent_chunks (chunk_events c ob s) = sent_chunks (iteration_events c ob s)"
    by (simp add: iteration_events_eq sent_chunks_append status_events_def keepalive_events_def)
  then show ?case
    using Cons.IH [of "loop_body c ob s"]
    by (simp add: Let_def run_events_Cons sent_chunks_append loop_body_fields(3))
qed

text \<open>
  Claim C2. With a positive \<open>MAX_SAMPLES_PER_CHUNK\<close>: an iteration sends a chunk
  exactly when the state read is PLAYING, \<open>accept_frames()\<close> is true and the source
  has bytes left; the chunk is the next at most \<open>MAX_SAMPLES_PER_CHUNK * 4\<close> bytes, a
  bound that 4 divides; \<open>frames\<close> grows by the chunk's length divided by 4 (integer
  division); and over a whole run the chunks sent are exactly the chunks due at the
  iterations where the three conditions held, so the bytes sent are the sum of their
  sizes and \<open>frames\<close> grows by the sum of their sizes divided by 4 each.
\<close>

theorem chunk_sent_iff:
  assumes "0 < max_samples c"
  shows "sent_chunks (iteration_events c ob s) =
           (if obs_status ob = PLAYING \<and> obs_accept ob \<and> infile s \<noteq> []
            then [take (max_samples c * 4) (infile s)] else [])
       \<and> (\<forall>d \<in> set (sent_chunks (iteration_events c ob s)). length d \<le> max_samples c * 4)
       \<and> 4 dvd max_samples c * 4
       \<and> frames (loop_body c ob s) =
           frames s + (\<Sum>d\<leftarrow>sent_chunks (iteration_events c ob s). int (length d) div 4)
       \<and> sent_chunks (run_events c obs s) =
           chunks_due (max_samples c * 4) (executed obs) (infile s)
       \<and> (\<Sum>d\<leftarrow>sent_chunks (run_events c obs s). length d) =
           (\<Sum>d\<leftarrow>chunks_due (max_samples c * 4) (executed obs) (infile s). length d)
       \<and> frames (run_state (stream_loop c obs s)) =
           frames s + (\<Sum>d\<leftarrow>chunks_due (max_samples c * 4) (executed obs) (infile s).
                          int (length d) div 4)"
proof -
  have a: "sent_chunks (iteration_events c ob s) =
           (if obs_status ob = PLAYING \<and> obs_accept ob \<and> infile s \<noteq> []
            then [take (max_samples c * 4) (infile s)] else [])"
    using assms by (simp add: sent_chunks_iteration)
  have b: "\<forall>d \<in> set (sent_chunks (iteration_events c ob s)). length d \<le> max_samples c * 4"
    by (simp add: a)
  have d: "frames (loop_body c ob s) =
           frames s + (\<Sum>d\<leftarrow>sent_chunks (iteration_events c ob s). int (length d) div 4)"
    by (simp add: loop_body_fields(3) iteration_events_eq sent_chunks_append status_events_def
          keepalive_events_def)
  have e: "sent_chunks (run_events c obs s) =
           chunks_due (max_samples c * 4) (executed obs) (infile s)"
    using assms by (rule sent_chunks_run)
  show ?thesis
    using a b d e frames_run [of c obs s] by simp
qed

theorem chunk_sent_iff_witness:
  "0 < max_samples ex_session
   \<and> sent_chunks (run_events ex_session
        [ex_obs 1 PLAYING True True, ex_obs 2 PLAYING False True, ex_obs 3 PAUSED True True,
         ex_obs 4 PLAYING True True, ex_obs 5 PLAYING True True] ex_state) = [[1, 2, 3, 4], [5, 6]]
   \<and> frames (run_state (stream_loop ex_session
        [ex_obs 1 PLAYING True True, ex_obs 2 PLAYING False True, ex_obs 3 PAUSED True True,
         ex_obs 4 PLAYING True True, ex_obs 5 PLAYING True True] ex_state)) = 1"
proof -
  have "0 < max_samples ex_session" by (simp add: ex_session_def)
  from chunk_sent_iff [OF this, of "ex_obs 1 PLAYING True True" ex_state
        "[ex_obs 1 PLAYING True True, ex_obs 2 PLAYING False True, ex_obs 3 PAUSED True True,
          ex_obs 4 PLAYING True True, ex_obs 5 PLAYING True True]"]
  have r: "sent_chunks (run_events ex_session
        [ex_obs 1 PLAYING True True, ex_obs 2 PLAYING False True, ex_obs 3 PAUSED True True,
         ex_obs 4 PLAYING True True, ex_obs 5 PLAYING True True] ex_state) =
        chunks_due (max_samples ex_session * 4) (executed
          [ex_obs 1 PLAYING True True, ex_obs 2 PLAYING False True, ex_obs 3 PAUSED True True,
           ex_obs 4 PLAYING True True, ex_obs 5 PLAYING True True]) (infile ex_state)"
    and f: "frames (run_state (stream_loop ex_session
        [ex_obs 1 PLAYING True True, ex_obs 2 PLAYING False True, ex_obs 3 PAUSED True True,
         ex_obs 4 PLAYING True True, ex_obs 5 PLAYING True True] ex_state)) =
        frames ex_state + (\<Sum>d\<leftarrow>chunks_due (max_samples ex_session * 4) (executed
          [ex_obs 1 PLAYING True True, ex_obs 2 PLAYING False True, ex_obs 3 PAUSED True True,
           ex_obs 4 PLAYING True True, ex_obs 5 PLAYING True True]) (infile ex_state).
             int (length d) div 4)"
    by blast+
  have c: "chunks_due (max_samples ex_session * 4) (executed
          [ex_obs 1 PLAYING True True, ex_obs 2 PLAYING False True, ex_obs 3 PAUSED True True,
           ex_obs 4 PLAYING True True, ex_obs 5 PLAYING True True]) (infile ex_state)
        = [[1, 2, 3, 4], [5, 6]]"
    by (simp add: ex_session_def ex_state_def ex_obs_def)
  show ?thesis
    unfolding r f c by (simp add: ex_session_def ex_state_def)
qed

subsection \<open>Leaving the loop\<close>

lemma stream_loop_exits_iff:
  "(\<exists>s'. stream_loop c obs s = Exited s') \<longleftrightarrow> (\<exists>ob \<in> set obs. \<not> obs_playing ob)"
  by (induction obs arbitrary: s) (auto simp: Let_def)

lemma stream_loop_running:
  "(\<forall>ob \<in> set obs. obs_playing ob) \<Longrightarrow> stream_loop c obs s = Running (iterate c obs s)"
  by (induction obs arbitrary: s) (auto simp: Let_def)

lemma chunk_events_idle:
  "obs_status ob \<noteq> PLAYING \<or> infile s = [] \<Longrightarrow> chunk_events c ob s = []"
  by (auto simp: chunk_events_def)

text \<open>
  Claim C3. The loop leaves exactly when some iteration ends with \<open>is_playing\<close>
  false; while \<open>is_playing\<close> stays true it keeps running, whatever the state read
  and however little of the source is left. An iteration at which the state is not
  PLAYING or the source is exhausted still evaluates both gates at the clock read at
  its top: the status gate sets \<open>last\<close> to that clock and prints the status line
  under its own conditions, the keep alive gate prints the keep alive line, calls
  \<open>keepalive\<close> and sets \<open>last_keepalive\<close>; these are all the events of the
  iteration, and \<open>frames\<close> and the source stay as they are.
\<close>

theorem loop_leaves_only_when_not_playing:
  "((\<exists>s'. stream_loop c obs s = Exited s') \<longleftrightarrow> (\<exists>ob \<in> set obs. \<not> obs_playing ob))
   \<and> ((\<forall>ob \<in> set obs. obs_playing ob) \<longrightarrow> stream_loop c obs s = Running (iterate c obs s))
   \<and> (obs_status ob \<noteq> PLAYING \<or> infile s = [] \<longrightarrow>
        iteration_events c ob s =
          (if obs_now ob - last_ntp s > MS2NTP (cv c) 1000 \<and> frames s \<noteq> 0 \<and> frames s > latency c
           then [Print (StatusLine (obs_now ob) (NTP2MS (cv c) (obs_now ob - start c))
                          (TS2MS (cv c) (frames s - latency c) (sample_rate c)))]
           else [])
          @ (if NTP2MS (cv c) (obs_now ob - last_keepalive s) \<ge> 30000
             then [Print (KeepaliveLine (obs_now ob) (NTP2MS (cv c) (obs_now ob - start c))
                            (TS2MS (cv c) (frames s - latency c) (sample_rate c))), Keepalive]
             else [])
        \<and> last_ntp (loop_body c ob s) =
            (if obs_now ob - last_ntp s > MS2NTP (cv c) 1000 then obs_now ob else last_ntp s)
        \<and> last_keepalive (loop_body c ob s) =
            (if NTP2MS (cv c) (obs_now ob - last_keepalive s) \<ge> 30000 then obs_now ob
             else last_keepalive s)
        \<and> frames (loop_body c ob s) = frames s
        \<and> infile (loop_body c ob s) = infile s
        \<and> stream_loop c (ob # obs) s =
            (if obs_playing ob then stream_loop c obs (loop_body c ob s)
             else Exited (loop_body c ob s)))"
proof (intro conjI impI)
  show "(\<exists>s'. stream_loop c obs s = Exited s') \<longleftrightarrow> (\<exists>ob \<in> set obs. \<not> obs_playing ob)"
    by (rule stream_loop_exits_iff)
next
  assume "\<forall>ob \<in> set obs. obs_playing ob"
  then show "stream_loop c obs s = Running (iterate c obs s)"
    by (rule stream_loop_running)
next
  assume h: "obs_status ob \<noteq> PLAYING \<or> infile s = []"
  then have e: "chunk_events c ob s = []"
    by (rule chunk_events_idle)
  show "iteration_events c ob s =
          (if obs_now ob - last_ntp s > MS2NTP (cv c) 1000 \<and> frames s \<noteq> 0 \<and> frames s > latency c
           then [Print (StatusLine (obs_now ob) (NTP2MS (cv c) (obs_now ob - start c))
                          (TS2MS (cv c) (frames s - latency c) (sample_rate c)))]
           else [])
          @ (if NTP2MS (cv c) (obs_now ob - last_keepalive s) \<ge> 30000
             then [Print (KeepaliveLine (obs_now ob) (NTP2MS (cv c) (obs_now ob - start c))
                            (TS2MS (cv c) (frames s - latency c) (sample_rate c))), Keepalive]
             else [])"
    by (simp add: iteration_events_eq e status_events_def keepalive_events_def)
  show "last_ntp (loop_body c ob s) =
          (if obs_now ob - last_ntp s > MS2NTP (cv c) 1000 then obs_now ob else last_ntp s)"
    by (rule loop_body_fields(2))
  show "last_keepalive (loop_body c ob s) =
          (if NTP2MS (cv c) (obs_now ob - last_keepalive s) \<ge> 30000 then obs_now ob
           else last_keepalive s)"
    by (rule loop_body_fields(4))
  show "frames (loop_body c ob s) = frames s"
    by (simp add: loop_body_fields(3) e)
  show "infile (loop_body c ob s) = infile s"
    using h by (auto simp: loop_body_fields(5))
  show "stream_loop c (ob # obs) s =
          (if obs_playing ob then stream_loop c obs (loop_body c ob s)
           else Exited (loop_body c ob s))"
    by (simp add: Let_def)
qed

theorem loop_leaves_only_when_not_playing_witness:
  "stream_loop ex_session [ex_obs 171798691840 PAUSED True True] (ex_late\<lparr>infile := [1, 2, 3, 4]\<rparr>)
     = Running (loop_body ex_session (ex_obs 171798691840 PAUSED True True)
                  (ex_late\<lparr>infile := [1, 2, 3, 4]\<rparr>))
   \<and> iteration_events ex_session (ex_obs 171798691840 PAUSED True True)
       (ex_late\<lparr>infile := [1, 2, 3, 4]\<rparr>)
     = [Print (StatusLine 171798691840 30000 0), Print (KeepaliveLine 171798691840 30000 0),
        Keepalive]
   \<and> last_ntp (loop_body ex_session (ex_obs 171798691840 PAUSED True True)
       (ex_late\<lparr>infile := [1, 2, 3, 4]\<rparr>)) = 171798691840
   \<and> last_keepalive (loop_body ex_session (ex_obs 171798691840 PAUSED True True)
       (ex_late\<lparr>infile := [1, 2, 3, 4]\<rparr>)) = 171798691840
   \<and> frames (loop_body ex_session (ex_obs 171798691840 PAUSED True True)
       (ex_late\<lparr>infile := [1, 2, 3, 4]\<rparr>)) = 5
   \<and> infile (loop_body ex_session (ex_obs 171798691840 PAUSED True True)
       (ex_late\<lparr>infile := [1, 2, 3, 4]\<rparr>)) = [1, 2, 3, 4]
   \<and> stream_loop ex_session [ex_obs 171798691840 PLAYING True True] ex_late
     = Running (loop_body ex_session (ex_obs 171798691840 PLAYING True True) ex_late)
   \<and> iteration_events ex_session (ex_obs 171798691840 PLAYING True True) ex_late
     = [Print (StatusLine 171798691840 30000 0), Print (KeepaliveLine 171798691840 30000 0),
        Keepalive]
   \<and> last_ntp (loop_body ex_session (ex_obs 171798691840 PLAYING True True) ex_late)
     = 171798691840
   \<and> last_keepalive (loop_body ex_session (ex_obs 171798691840 PLAYING True True) ex_late)
     = 171798691840
   \<and> stream_loop ex_session [ex_obs 171798691840 PLAYING True False] ex_late
     = Exited (loop_body ex_session (ex_obs 171798691840 PLAYING True False) ex_late)"
proof -
  let ?p = "ex_obs 171798691840 PAUSED True True"
  let ?q = "ex_obs 171798691840 PLAYING True True"
  let ?r = "ex_obs 171798691840 PLAYING True False"
  let ?s = "ex_late\<lparr>infile := [1, 2, 3, 4]\<rparr>"
  have a: "\<forall>ob \<in> set [?p]. obs_playing ob" "\<forall>ob \<in> set [?q]. obs_playing ob"
    by (simp_all add: ex_obs_def)
  have b: "obs_status ?p \<noteq> PLAYING \<or> infile ?s = []"
    "obs_status ?q \<noteq> PLAYING \<or> infile ex_late = []"
    "obs_status ?r \<noteq> PLAYING \<or> infile ex_late = []"
    by (simp_all add: ex_obs_def ex_late_def)
  have g: "obs_now ?p - last_ntp ?s > MS2NTP (cv ex_session) 1000"
    "frames ?s \<noteq> 0" "frames ?s > latency ex_session"
    "NTP2MS (cv ex_session) (obs_now ?p - last_keepalive ?s) \<ge> 30000"
    "obs_now ?q - last_ntp ex_late > MS2NTP (cv ex_session) 1000"
    "frames ex_late \<noteq> 0" "frames ex_late > latency ex_session"
    "NTP2MS (cv ex_session) (obs_now ?q - last_keepalive ex_late) \<ge> 30000"
    by (simp_all add: ex_session_def ex_obs_def ex_late_def ntp_conv_def tdiv_def)
  have v: "obs_now ?p = 171798691840" "obs_now ?q = 171798691840"
    "NTP2MS (cv ex_session) (171798691840 - start ex_session) = 30000"
    "TS2MS (cv ex_session) (frames ?s - latency ex_session) (sample_rate ex_session) = 0"
    "TS2MS (cv ex_session) (frames ex_late - latency ex_session) (sample_rate ex_session) = 0"
    "frames ?s = 5" "infile ?s = [1, 2, 3, 4]" "obs_playing ?q" "\<not> obs_playing ?r"
    by (simp_all add: ex_session_def ex_obs_def ex_late_def ntp_conv_def tdiv_def)
  note t1 = loop_leaves_only_when_not_playing [of ex_session "[?p]" ?s ?p]
  note t2 = loop_leaves_only_when_not_playing [of ex_session "[?q]" ex_late ?q]
  note t3 = loop_leaves_only_when_not_playing [of ex_session "[]" ex_late ?r]
  have r1: "stream_loop ex_session [?p] ?s = Running (iterate ex_session [?p] ?s)"
    using t1 a(1) by blast
  have r2: "stream_loop ex_session [?q] ex_late = Running (iterate ex_session [?q] ex_late)"
    using t2 a(2) by blast
  have r3: "stream_loop ex_session [?r] ex_late = Exited (loop_body ex_session ?r ex_late)"
    using t3 b(3) v(9) by simp
  have i1: "iteration_events ex_session ?p ?s
      = [Print (StatusLine 171798691840 30000 0), Print (KeepaliveLine 171798691840 30000 0),
         Keepalive]"
    and l1: "last_ntp (loop_body ex_session ?p ?s) = 171798691840"
    and k1: "last_keepalive (loop_body ex_session ?p ?s) = 171798691840"
    and f1: "frames (loop_body ex_session ?p ?s) = 5"
    and n1: "infile (loop_body ex_session ?p ?s) = [1, 2, 3, 4]"
    using t1 b(1) g(1-4) v(1,3,4,6,7) by simp_all
  have i2: "iteration_events ex_session ?q ex_late
      = [Print (StatusLine 171798691840 30000 0), Print (KeepaliveLine 171798691840 30000 0),
         Keepalive]"
    and l2: "last_ntp (loop_body ex_session ?q ex_late) = 171798691840"
    and k2: "last_keepalive (loop_body ex_session ?q ex_late) = 171798691840"
    using t2 b(2) g(5-8) v(2,3,5) by simp_all
  show ?thesis
    using r1 r2 r3 i1 l1 k1 f1 n1 i2 l2 k2 by simp
qed

subsection \<open>The status line\<close>

lemma status_lines_iteration:
  "status_lines (iteration_events c ob s) =
     (if obs_now ob - last_ntp s > MS2NTP (cv c) 1000 \<and> frames s \<noteq> 0 \<and> frames s > latency c
      then [(obs_now ob, NTP2MS (cv c) (obs_now ob - start c),
             TS2MS (cv c) (frames s - latency c) (sample_rate c))]
      else [])"
  by (simp add: iteration_events_eq status_lines_append status_events_def keepalive_events_def
        chunk_events_def)
lemma successive_weaken_head:
  "successive (\<lambda>x y. y - x > (d::int)) (b # ts) \<Longrightarrow> a \<le> b \<Longrightarrow>
   successive (\<lambda>x y. y - x > d) (a # ts)"
  by (cases ts) auto

lemma status_lines_spaced:
  assumes "0 \<le> MS2NTP (cv c) 1000"
  shows "successive (\<lambda>x y. y - x > MS2NTP (cv c) 1000)
           (last_ntp s # map fst (status_lines (run_events c obs s)))"
proof (induction obs arbitrary: s)
  case Nil
  show ?case by (simp add: run_events_Nil)
next
  case (Cons ob obs)
  let ?d = "MS2NTP (cv c) 1000"
  let ?R = "\<lambda>x y. y - x > ?d"
  let ?s' = "loop_body c ob s"
  let ?rest = "if obs_playing ob then run_events c obs ?s' else []"
  have rest: "successive ?R (last_ntp ?s' # map fst (status_lines ?rest))"
    using Cons.IH [of ?s'] by simp
  show ?case
  proof (cases "obs_now ob - last_ntp s > ?d")
    case False
    then have "last_ntp ?s' = last_ntp s" "status_lines (iteration_events c ob s) = []"
      by (simp_all add: loop_body_fields(2) status_lines_iteration)
    then show ?thesis
      using rest by (simp add: run_events_Cons status_lines_append)
  next
    case True
    then have l: "last_ntp ?s' = obs_now ob" by (simp add: loop_body_fields(2))
    show ?thesis
    proof (cases "frames s \<noteq> 0 \<and> frames s > latency c")
      case True
      with \<open>obs_now ob - last_ntp s > ?d\<close>
      have "map fst (status_lines (iteration_events c ob s)) = [obs_now ob]"
        by (simp add: status_lines_iteration)
      then show ?thesis
        using rest l \<open>obs_now ob - last_ntp s > ?d\<close>
        by (simp add: run_events_Cons status_lines_append)
    next
      case False
      then have e: "status_lines (iteration_events c ob s) = []"
        by (auto simp add: status_lines_iteration)
      have "last_ntp s \<le> obs_now ob"
        using \<open>obs_now ob - last_ntp s > ?d\<close> assms by simp
      then have "successive ?R (last_ntp s # map fst (status_lines ?rest))"
        using rest l successive_weaken_head [of ?d "obs_now ob" _ "last_ntp s"] by simp
      then show ?thesis
        using e by (simp add: run_events_Cons status_lines_append)
    qed
  qed
qed

lemma status_lines_run_played:
  "(t, e, p) \<in> set (status_lines (run_events c obs s)) \<Longrightarrow>
   \<exists>d>0. p = TS2MS (cv c) d (sample_rate c)"
proof (induction obs arbitrary: s)
  case Nil
  then show ?case by (simp add: run_events_Nil)
next
  case (Cons ob obs)
  from Cons.prems
  consider "(t, e, p) \<in> set (status_lines (iteration_events c ob s))"
    | "obs_playing ob" "(t, e, p) \<in> set (status_lines (run_events c obs (loop_body c ob s)))"
    by (auto simp: run_events_Cons status_lines_append split: if_splits)
  then show ?case
  proof cases
    case 1
    then have "frames s - latency c > 0" "p = TS2MS (cv c) (frames s - latency c) (sample_rate c)"
      by (auto simp: status_lines_iteration split: if_splits)
    then show ?thesis by blast
  next
    case 2
    then show ?thesis using Cons.IH by blast
  qed
qed

text \<open>
  Claim C4, as the code has it. The status block fires exactly when
  \<open>now - last > MS2NTP(1000)\<close>, strictly more than 1000 ms of shared time; when
  it fires \<open>last\<close> becomes \<open>now\<close> whether or not a line is printed; the line is
  printed only when \<open>frames\<close> is not 0 and exceeds the latency. So, with
  \<open>MS2NTP(1000)\<close> not negative, each status line of a run is more than
  \<open>MS2NTP(1000)\<close> after the one before it (and after the initial \<open>last\<close>), and the
  played time it reports is \<open>TS2MS\<close> of a positive number of frames, which is not
  negative when \<open>TS2MS\<close> maps positive frame counts to non-negative values.
\<close>

theorem status_gate:
  assumes "0 \<le> MS2NTP (cv c) 1000"
  shows "last_ntp (loop_body c ob s) =
           (if obs_now ob - last_ntp s > MS2NTP (cv c) 1000 then obs_now ob else last_ntp s)
       \<and> status_lines (iteration_events c ob s) =
           (if obs_now ob - last_ntp s > MS2NTP (cv c) 1000 \<and> frames s \<noteq> 0 \<and> frames s > latency c
            then [(obs_now ob, NTP2MS (cv c) (obs_now ob - start c),
                   TS2MS (cv c) (frames s - latency c) (sample_rate c))]
            else [])
       \<and> successive (\<lambda>x y. y - x > MS2NTP (cv c) 1000)
           (last_ntp s # map fst (status_lines (run_events c obs s)))
       \<and> (\<forall>(t, e, p) \<in> set (status_lines (run_events c obs s)).
             \<exists>d>0. p = TS2MS (cv c) d (sample_rate c))
       \<and> ((\<forall>d>0. 0 \<le> TS2MS (cv c) d (sample_rate c)) \<longrightarrow>
            (\<forall>(t, e, p) \<in> set (status_lines (run_events c obs s)). 0 \<le> p))"
proof -
  have played: "\<forall>(t, e, p) \<in> set (status_lines (run_events c obs s)).
                  \<exists>d>0. p = TS2MS (cv c) d (sample_rate c)"
    using status_lines_run_played [of _ _ _ c obs s] by auto
  then have "(\<forall>d>0. 0 \<le> TS2MS (cv c) d (sample_rate c)) \<longrightarrow>
            (\<forall>(t, e, p) \<in> set (status_lines (run_events c obs s)). 0 \<le> p)"
    by fastforce
  then show ?thesis
    using played status_lines_spaced [OF assms, of s obs]
    by (simp add: loop_body_fields(2) status_lines_iteration)
qed

lemma ntp_conv_1000: "MS2NTP ntp_conv 1000 = 4294967296"
  by (simp add: ntp_conv_def tdiv_def)
theorem status_gate_witness:
  "0 \<le> MS2NTP (cv ex_session) 1000
   \<and> last_ntp (loop_body ex_session (ex_obs 47244640257 PLAYING True True) ex_late) = 47244640257
   \<and> status_lines (iteration_events ex_session (ex_obs 47244640257 PLAYING True True) ex_late)
       = [(47244640257, 1000, 0)]"
proof -
  have h: "0 \<le> MS2NTP (cv ex_session) 1000"
    by (simp add: ex_session_def ntp_conv_1000)
  show ?thesis
    using status_gate [OF h, of "ex_obs 47244640257 PLAYING True True" ex_late "[]"] h
    by (simp add: ex_session_def ex_late_def ex_obs_def ntp_conv_def tdiv_def)
qed

text \<open>
  The claim as the specification words it, with \<open>\<ge>\<close>, fails: exactly 1000 ms after
  \<open>last\<close>, with more frames sent than the latency, the block does not fire.
\<close>

theorem status_gate_counterexample:
  "obs_now (ex_obs 47244640256 PLAYING True True) - last_ntp ex_late = MS2NTP (cv ex_session) 1000
   \<and> NTP2MS (cv ex_session) (obs_now (ex_obs 47244640256 PLAYING True True) - last_ntp ex_late) = 1000
   \<and> frames ex_late > latency ex_session
   \<and> last_ntp (loop_body ex_session (ex_obs 47244640256 PLAYING True True) ex_late) = last_ntp ex_late
   \<and> last_ntp ex_late \<noteq> obs_now (ex_obs 47244640256 PLAYING True True)
   \<and> status_lines (iteration_events ex_session (ex_obs 47244640256 PLAYING True True) ex_late) = []
   \<and> \<not> (last_ntp (loop_body ex_session (ex_obs 47244640256 PLAYING True True) ex_late)
            = obs_now (ex_obs 47244640256 PLAYING True True)
          \<longleftrightarrow> obs_now (ex_obs 47244640256 PLAYING True True) - last_ntp ex_late
            \<ge> MS2NTP (cv ex_session) 1000)"
  by (simp add: loop_body_fields(2) status_lines_iteration ex_session_def ex_late_def ex_obs_def
        ntp_conv_def tdiv_def)

subsection \<open>The keep alive\<close>

lemma keepalive_lines_iteration:
  "keepalive_lines (iteration_events c ob s) =
     (if NTP2MS (cv c) (obs_now ob - last_keepalive s) \<ge> 30000
      then [(obs_now ob, NTP2MS (cv c) (obs_now ob - start c),
             TS2MS (cv c) (frames s - latency c) (sample_rate c))]
      else [])"
  by (simp add: iteration_events_eq keepalive_lines_append status_events_def keepalive_events_def
        chunk_events_def)

lemma keepalive_calls_iteration:
  "count_list (iteration_events c ob s) Keepalive =
     (if NTP2MS (cv c) (obs_now ob - last_keepalive s) \<ge> 30000 then 1 else 0)"
  by (simp add: iteration_events_eq status_events_def keepalive_events_def chunk_events_def)

lemma keepalive_quiet_prefix:
  "\<forall>ob \<in> set pre. NTP2MS (cv c) (obs_now ob - last_keepalive s) < 30000 \<Longrightarrow>
   last_keepalive (iterate c pre s) = last_keepalive s
   \<and> count_list (out (iterate c pre s)) Keepalive = count_list (out s) Keepalive"
proof (induction pre arbitrary: s)
  case Nil
  show ?case by simp
next
  case (Cons ob pre)
  have q: "\<not> NTP2MS (cv c) (obs_now ob - last_keepalive s) \<ge> 30000"
    using Cons.prems by simp
  have lk: "last_keepalive (loop_body c ob s) = last_keepalive s"
    using q by (simp add: loop_body_fields(4))
  have cnt: "count_list (out (loop_body c ob s)) Keepalive = count_list (out s) Keepalive"
    using q by (simp add: out_loop_body keepalive_calls_iteration)
  have "\<forall>x \<in> set pre. NTP2MS (cv c) (obs_now x - last_keepalive (loop_body c ob s)) < 30000"
    using Cons.prems lk by simp
  from Cons.IH [OF this] show ?case
    using lk cnt by simp
qed

lemma keepalive_lines_spaced:
  "successive (\<lambda>x y. NTP2MS (cv c) (y - x) \<ge> 30000)
     (last_keepalive s # map fst (keepalive_lines (run_events c obs s)))"
proof (induction obs arbitrary: s)
  case Nil
  show ?case by (simp add: run_events_Nil)
next
  case (Cons ob obs)
  let ?s' = "loop_body c ob s"
  let ?rest = "if obs_playing ob then run_events c obs ?s' else []"
  have rest: "successive (\<lambda>x y. NTP2MS (cv c) (y - x) \<ge> 30000)
                (last_keepalive ?s' # map fst (keepalive_lines ?rest))"
    using Cons.IH [of ?s'] by simp
  show ?case
  proof (cases "NTP2MS (cv c) (obs_now ob - last_keepalive s) \<ge> 30000")
    case True
    then show ?thesis
      using rest
      by (simp add: run_events_Cons keepalive_lines_append keepalive_lines_iteration
            loop_body_fields(4))
  next
    case False
    then show ?thesis
      using rest
      by (simp add: run_events_Cons keepalive_lines_append keepalive_lines_iteration
            loop_body_fields(4))
  qed
qed

text \<open>
  Claim C5. An iteration calls \<open>keepalive\<close> exactly when
  \<open>NTP2MS(now - last_keepalive) \<ge> 30000\<close>, and then once; at that iteration it
  prints the keep alive line and sets \<open>last_keepalive\<close> to the iteration's
  \<open>now\<close>, and at any other iteration \<open>last_keepalive\<close> stays. After iterations at
  which the gate stayed shut nothing has been called and \<open>last_keepalive\<close> is
  unchanged, so the first iteration whose clock is 30000 ms or more after it is the one
  that calls \<open>keepalive\<close>. In a run every keep alive is at least 30000 ms after the
  one before it, and the first one after the initial \<open>last_keepalive\<close>.
\<close>

theorem keepalive_gate:
  "count_list (iteration_events c ob s) Keepalive =
      (if NTP2MS (cv c) (obs_now ob - last_keepalive s) \<ge> 30000 then 1 else 0)
   \<and> keepalive_lines (iteration_events c ob s) =
      (if NTP2MS (cv c) (obs_now ob - last_keepalive s) \<ge> 30000
       then [(obs_now ob, NTP2MS (cv c) (obs_now ob - start c),
              TS2MS (cv c) (frames s - latency c) (sample_rate c))]
       else [])
   \<and> last_keepalive (loop_body c ob s) =
      (if NTP2MS (cv c) (obs_now ob - last_keepalive s) \<ge> 30000 then obs_now ob
       else last_keepalive s)
   \<and> ((\<forall>x \<in> set pre. NTP2MS (cv c) (obs_now x - last_keepalive s) < 30000) \<longrightarrow>
        count_list (out (iterate c pre s)) Keepalive = count_list (out s) Keepalive
        \<and> count_list (iteration_events c ob (iterate c pre s)) Keepalive =
            (if NTP2MS (cv c) (obs_now ob - last_keepalive s) \<ge> 30000 then 1 else 0)
        \<and> last_keepalive (loop_body c ob (iterate c pre s)) =
            (if NTP2MS (cv c) (obs_now ob - last_keepalive s) \<ge> 30000 then obs_now ob
             else last_keepalive s))
   \<and> successive (\<lambda>x y. NTP2MS (cv c) (y - x) \<ge> 30000)
       (last_keepalive s # map fst (keepalive_lines (run_events c obs s)))"
proof -
  have q: "(\<forall>x \<in> set pre. NTP2MS (cv c) (obs_now x - last_keepalive s) < 30000) \<longrightarrow>
        count_list (out (iterate c pre s)) Keepalive = count_list (out s) Keepalive
        \<and> count_list (iteration_events c ob (iterate c pre s)) Keepalive =
            (if NTP2MS (cv c) (obs_now ob - last_keepalive s) \<ge> 30000 then 1 else 0)
        \<and> last_keepalive (loop_body c ob (iterate c pre s)) =
            (if NTP2MS (cv c) (obs_now ob - last_keepalive s) \<ge> 30000 then obs_now ob
             else last_keepalive s)"
    using keepalive_quiet_prefix [of pre c s]
    by (simp add: keepalive_calls_iteration loop_body_fields(4))
  show ?thesis
    using q keepalive_lines_spaced [of c s obs]
    by (simp add: keepalive_calls_iteration keepalive_lines_iteration loop_body_fields(4))
qed

theorem keepalive_gate_witness:
  "NTP2MS (cv ex_session) (obs_now (ex_obs 47244640256 PAUSED True True) - last_keepalive ex_late) < 30000
   \<and> count_list (out (iterate ex_session [ex_obs 47244640256 PAUSED True True] ex_late)) Keepalive = 0
   \<and> count_list (iteration_events ex_session (ex_obs 171798691840 PAUSED True True)
        (iterate ex_session [ex_obs 47244640256 PAUSED True True] ex_late)) Keepalive = 1
   \<and> last_keepalive (loop_body ex_session (ex_obs 171798691840 PAUSED True True)
        (iterate ex_session [ex_obs 47244640256 PAUSED True True] ex_late)) = 171798691840"
proof -
  have h: "\<forall>x \<in> set [ex_obs 47244640256 PAUSED True True].
             NTP2MS (cv ex_session) (obs_now x - last_keepalive ex_late) < 30000"
    by (simp add: ex_session_def ex_obs_def ex_late_def ntp_conv_def tdiv_def)
  have g: "NTP2MS (cv ex_session) (obs_now (ex_obs 171798691840 PAUSED True True)
             - last_keepalive ex_late) \<ge> 30000"
    by (simp add: ex_session_def ex_obs_def ex_late_def ntp_conv_def tdiv_def)
  have o: "count_list (out ex_late) Keepalive = 0" "obs_now (ex_obs 171798691840 PAUSED True True) = 171798691840"
    by (simp_all add: ex_late_def ex_obs_def)
  from keepalive_gate [of ex_session "ex_obs 171798691840 PAUSED True True" ex_late
         "[ex_obs 47244640256 PAUSED True True]" "[]"]
  have "count_list (out (iterate ex_session [ex_obs 47244640256 PAUSED True True] ex_late)) Keepalive
          = count_list (out ex_late) Keepalive
        \<and> count_list (iteration_events ex_session (ex_obs 171798691840 PAUSED True True)
            (iterate ex_session [ex_obs 47244640256 PAUSED True True] ex_late)) Keepalive =
            (if NTP2MS (cv ex_session) (obs_now (ex_obs 171798691840 PAUSED True True) - last_keepalive ex_late) \<ge> 30000 then 1 else 0)
        \<and> last_keepalive (loop_body ex_session (ex_obs 171798691840 PAUSED True True)
            (iterate ex_session [ex_obs 47244640256 PAUSED True True] ex_late)) =
            (if NTP2MS (cv ex_session) (obs_now (ex_obs 171798691840 PAUSED True True) - last_keepalive ex_late) \<ge> 30000
             then obs_now (ex_obs 171798691840 PAUSED True True) else last_keepalive ex_late)"
    using h by blast
  then show ?thesis
    using h g o by simp
qed

lemma tdiv_neg_pos: "a < 0 \<Longrightarrow> 0 < b \<Longrightarrow> tdiv a b = - (- a div b)"
  by (simp add: tdiv_def)

lemma TS2MS_ntp_conv_neg:
  assumes "d < 0" and "0 < rate"
  shows "TS2MS ntp_conv d rate = - (- d * 1000 div rate)"
proof -
  have "d * 1000 < 0"
    using assms(1) by simp
  then have "tdiv (d * 1000) rate = - (- (d * 1000) div rate)"
    using assms(2) by (rule tdiv_neg_pos)
  then show ?thesis
    by (simp add: ntp_conv_def)
qed

text \<open>
  Claim C10. When the keep alive gate fires, the keep alive line is printed whatever
  \<open>frames\<close> and the latency are, with \<open>TS2MS(frames - latency, sample_rate)\<close> as
  the played time. When it fires while \<open>frames < latency\<close>, no status line is
  printed in that iteration and the frame count handed to \<open>TS2MS\<close> is negative. With
  the conversions of the specification, which truncate toward zero, the played time
  printed is then never positive, and it is negative exactly when the frames missing
  amount to a millisecond or more, \<open>sample_rate \<le> (latency - frames) * 1000\<close>; below
  that it is 0.
\<close>

theorem keepalive_line_unguarded:
  "(NTP2MS (cv c) (obs_now ob - last_keepalive s) \<ge> 30000 \<longrightarrow>
      keepalive_lines (iteration_events c ob s) =
        [(obs_now ob, NTP2MS (cv c) (obs_now ob - start c),
          TS2MS (cv c) (frames s - latency c) (sample_rate c))])
   \<and> (NTP2MS (cv c) (obs_now ob - last_keepalive s) \<ge> 30000 \<and> frames s < latency c \<longrightarrow>
        status_lines (iteration_events c ob s) = []
        \<and> frames s - latency c < 0)
   \<and> (NTP2MS (cv c) (obs_now ob - last_keepalive s) \<ge> 30000 \<and> frames s < latency c
        \<and> cv c = ntp_conv \<and> 0 < sample_rate c \<longrightarrow>
        keepalive_lines (iteration_events c ob s) =
          [(obs_now ob, NTP2MS (cv c) (obs_now ob - start c),
            - ((latency c - frames s) * 1000 div sample_rate c))]
        \<and> - ((latency c - frames s) * 1000 div sample_rate c) \<le> 0
        \<and> (- ((latency c - frames s) * 1000 div sample_rate c) < 0
             \<longleftrightarrow> sample_rate c \<le> (latency c - frames s) * 1000))"
proof (intro conjI impI)
  assume "NTP2MS (cv c) (obs_now ob - last_keepalive s) \<ge> 30000"
  then show "keepalive_lines (iteration_events c ob s) =
        [(obs_now ob, NTP2MS (cv c) (obs_now ob - start c),
          TS2MS (cv c) (frames s - latency c) (sample_rate c))]"
    by (simp add: keepalive_lines_iteration)
next
  assume "NTP2MS (cv c) (obs_now ob - last_keepalive s) \<ge> 30000 \<and> frames s < latency c"
  then show "status_lines (iteration_events c ob s) = []" "frames s - latency c < 0"
    by (simp_all add: status_lines_iteration)
next
  assume h: "NTP2MS (cv c) (obs_now ob - last_keepalive s) \<ge> 30000 \<and> frames s < latency c
        \<and> cv c = ntp_conv \<and> 0 < sample_rate c"
  then have "TS2MS ntp_conv (frames s - latency c) (sample_rate c)
      = - (- (frames s - latency c) * 1000 div sample_rate c)"
    by (intro TS2MS_ntp_conv_neg) simp_all
  then have t: "TS2MS (cv c) (frames s - latency c) (sample_rate c)
      = - ((latency c - frames s) * 1000 div sample_rate c)"
    using h by simp
  show "keepalive_lines (iteration_events c ob s) =
          [(obs_now ob, NTP2MS (cv c) (obs_now ob - start c),
            - ((latency c - frames s) * 1000 div sample_rate c))]"
  proof -
    have "NTP2MS (cv c) (obs_now ob - last_keepalive s) \<ge> 30000"
      using h by blast
    then have "keepalive_lines (iteration_events c ob s) =
        [(obs_now ob, NTP2MS (cv c) (obs_now ob - start c),
          TS2MS (cv c) (frames s - latency c) (sample_rate c))]"
      by (simp add: keepalive_lines_iteration)
    then show ?thesis
      by (simp only: t)
  qed
  have p: "0 \<le> (latency c - frames s) * 1000"
    using h by simp
  show "- ((latency c - frames s) * 1000 div sample_rate c) \<le> 0"
    using h p by (simp add: pos_imp_zdiv_nonneg_iff)
  show "- ((latency c - frames s) * 1000 div sample_rate c) < 0
          \<longleftrightarrow> sample_rate c \<le> (latency c - frames s) * 1000"
    using h by (simp add: pos_imp_zdiv_pos_iff)
qed

theorem keepalive_line_unguarded_witness:
  "NTP2MS (cv (ex_session\<lparr>latency := 44100\<rparr>))
     (obs_now (ex_obs 171798691840 PLAYING True True) - last_keepalive ex_state) = 30000
   \<and> frames ex_state = 0
   \<and> keepalive_lines (iteration_events (ex_session\<lparr>latency := 44100\<rparr>)
       (ex_obs 171798691840 PLAYING True True) ex_state)
       = [(171798691840, 30000, - 1000)]
   \<and> status_lines (iteration_events (ex_session\<lparr>latency := 44100\<rparr>)
       (ex_obs 171798691840 PLAYING True True) ex_state) = []"
proof -
  let ?c = "ex_session\<lparr>latency := 44100\<rparr>"
  let ?ob = "ex_obs 171798691840 PLAYING True True"
  have g: "NTP2MS (cv ?c) (obs_now ?ob - last_keepalive ex_state) = 30000"
    by (simp add: ex_session_def ex_obs_def ex_state_def ntp_conv_def tdiv_def)
  have f: "frames ex_state < latency ?c" "frames ex_state = 0"
    "cv ?c = ntp_conv" "0 < sample_rate ?c"
    by (simp_all add: ex_session_def ex_state_def)
  have v: "obs_now ?ob = 171798691840"
    "NTP2MS (cv ?c) (171798691840 - start ?c) = 30000"
    "(latency ?c - frames ex_state) * 1000 div sample_rate ?c = 1000"
    by (simp_all add: ex_session_def ex_obs_def ex_state_def ntp_conv_def tdiv_def)
  note t = keepalive_line_unguarded [of ?c ?ob ex_state]
  have ge: "NTP2MS (cv ?c) (obs_now ?ob - last_keepalive ex_state) \<ge> 30000"
    using g by simp
  have s: "status_lines (iteration_events ?c ?ob ex_state) = []"
    using t ge f(1) by blast
  have k: "keepalive_lines (iteration_events ?c ?ob ex_state) =
      [(obs_now ?ob, NTP2MS (cv ?c) (obs_now ?ob - start ?c),
        - ((latency ?c - frames ex_state) * 1000 div sample_rate ?c))]"
    using t ge f(1,3,4) by blast
  show ?thesis
    using g f(2) s k v by simp
qed

theorem keepalive_line_unguarded_counterexample:
  "NTP2MS (cv ex_session)
     (obs_now (ex_obs 171798691840 PLAYING True True) - last_keepalive ex_state) = 30000
   \<and> frames ex_state = 0
   \<and> latency ex_session = 2
   \<and> keepalive_lines (iteration_events ex_session (ex_obs 171798691840 PLAYING True True)
       ex_state) = [(171798691840, 30000, 0)]"
  by (simp add: keepalive_lines_iteration ex_session_def ex_obs_def ex_state_def ntp_conv_def
        tdiv_def)

subsection \<open>The key handler\<close>

text \<open>
  Claim C6. On the key \<open>p\<close>: in state PLAYING the handler calls \<open>pause\<close>, then
  \<open>flush\<close>, and the state becomes PAUSED; in state PAUSED or STOPPED it calls
  nothing and the state stays.
\<close>

theorem pause_command:
  "handle_key_event cnv lat rate clk ''p'' (PLAYING, evs)
     = (None, PAUSED, evs @ [Pause, Flush, Print (PauseAt (clk 0))])
   \<and> handle_key_event cnv lat rate clk ''p'' (PAUSED, evs) = (None, PAUSED, evs)
   \<and> handle_key_event cnv lat rate clk ''p'' (STOPPED, evs) = (None, STOPPED, evs)"
  by (simp add: handle_key_event_def)

text \<open>
  Claim C7. On the key \<open>r\<close>, from any state: the state becomes PLAYING and
  \<open>start_at\<close> is called with \<open>now + MS2NTP(200) - TS2NTP(latency, sample_rate)\<close>;
  \<open>flush\<close> is not called.
\<close>

theorem restart_command:
  "handle_key_event cnv lat rate clk ''r'' (st, evs)
     = (None, PLAYING,
        evs @ [StartAt (clk 0 + MS2NTP cnv 200 - TS2NTP cnv lat rate), Print (RestartedAt (clk 1))])
   \<and> count_list (snd (snd (handle_key_event cnv lat rate clk ''r'' (st, evs)))) Flush
       = count_list evs Flush"
  by (simp add: handle_key_event_def Let_def)

lemma process_step_key:
  assumes "listener p = None" and "main_thread p = Running s"
  shows "process_step c (Key clk key) p =
           (case handle_key_event (cv c) (latency c) (sample_rate c) clk key
                   (shared_status p, out s) of
              (e, st', evs') \<Rightarrow>
                p\<lparr>shared_status := st', listener := e, main_thread := Running (s\<lparr>out := evs'\<rparr>)\<rparr>)"
  using assms by (simp add: process_step_def)

lemma process_step_key_ended:
  "listener p = Some e \<Longrightarrow> process_step c (Key clk key) p = p"
  by (simp add: process_step_def split: run.splits)

lemma process_step_iteration:
  assumes "main_thread p = Running s"
  shows "process_step c (Iteration ob) p =
           p\<lparr>main_thread :=
               (if obs_playing ob
                then Running (loop_body c (ob\<lparr>obs_status := shared_status p\<rparr>) s)
                else Exited (loop_body c (ob\<lparr>obs_status := shared_status p\<rparr>) s))\<rparr>"
  using assms by (simp add: process_step_def Let_def)

lemma process_run_exited: "main_thread p = Exited s \<Longrightarrow> process_run c sts p = p"
  by (induction sts) (simp_all add: process_step_def)

lemma process_step_running:
  assumes "main_thread p = Running s"
  shows "(\<exists>s'. main_thread (process_step c st p) = Running s') \<and> \<not> leaving st
         \<or> (\<exists>s'. main_thread (process_step c st p) = Exited s') \<and> leaving st"
proof (cases st)
  case (Key clk key)
  show ?thesis
  proof (cases "listener p")
    case None
    then show ?thesis
      using assms Key by (simp add: process_step_key split: prod.splits)
  next
    case (Some e)
    then show ?thesis
      using assms Key by (simp add: process_step_key_ended)
  qed
next
  case (Iteration ob)
  then show ?thesis
    using assms by (simp add: process_step_iteration)
qed

lemma process_run_exit:
  "main_thread p = Running s \<Longrightarrow>
     process_exit (process_run c sts p) = (if list_ex leaving sts then Some 0 else None)"
proof (induction sts arbitrary: p s)
  case Nil
  then show ?case
    by (simp add: process_exit_def)
next
  case (Cons st sts)
  from process_step_running [OF Cons.prems, of c st]
  consider s' where "main_thread (process_step c st p) = Running s'" "\<not> leaving st"
    | s' where "main_thread (process_step c st p) = Exited s'" "leaving st"
    by blast
  then show ?case
  proof cases
    case 1
    then show ?thesis
      using Cons.IH [of "process_step c st p" s'] by simp
  next
    case 2
    then show ?thesis
      by (simp add: process_run_exited [of _ s'] process_exit_def)
  qed
qed

text \<open>
  Claim C8. On the key \<open>s\<close> or \<open>q\<close>, from any state: the handler calls
  \<open>stop\<close>, then \<open>flush\<close>, sets the state to STOPPED and calls \<open>exit(0)\<close>, which
  raises \<open>SystemExit\<close> with code 0. Raised on the listener thread, the exception ends
  that thread: it takes no further key. The process has not ended by it: the main thread
  runs its next iteration with the state STOPPED, and whatever steps follow, the process
  ends, with exit status 0, exactly when an iteration of the loop finds \<open>is_playing\<close>
  false.
\<close>

theorem stop_command:
  assumes "key = ''s'' \<or> key = ''q''" and "listener p = None" and "main_thread p = Running s"
  shows "handle_key_event cnv lat rate clk key (st, evs)
           = (Some (SystemExit (Some 0)), STOPPED, evs @ [Stop, Flush, Print (StoppedAt (clk 0))])
         \<and> process_step c (Key clk key) p
           = p\<lparr>shared_status := STOPPED, listener := Some (SystemExit (Some 0)),
               main_thread := Running (s\<lparr>out := out s @ [Stop, Flush, Print (StoppedAt (clk 0))]\<rparr>)\<rparr>
         \<and> process_exit (process_step c (Key clk key) p) = None
         \<and> process_step c (Key clk' key') (process_step c (Key clk key) p)
           = process_step c (Key clk key) p
         \<and> main_thread (process_step c (Iteration ob) (process_step c (Key clk key) p))
           = (if obs_playing ob
              then Running (loop_body c (ob\<lparr>obs_status := STOPPED\<rparr>)
                              (s\<lparr>out := out s @ [Stop, Flush, Print (StoppedAt (clk 0))]\<rparr>))
              else Exited (loop_body c (ob\<lparr>obs_status := STOPPED\<rparr>)
                             (s\<lparr>out := out s @ [Stop, Flush, Print (StoppedAt (clk 0))]\<rparr>)))
         \<and> process_exit (process_run c sts (process_step c (Key clk key) p))
           = (if list_ex leaving sts then Some 0 else None)"
proof -
  let ?s = "s\<lparr>out := out s @ [Stop, Flush, Print (StoppedAt (clk 0))]\<rparr>"
  let ?p = "p\<lparr>shared_status := STOPPED, listener := Some (SystemExit (Some 0)),
              main_thread := Running ?s\<rparr>"
  have h: "\<And>st evs. handle_key_event cnv lat rate clk key (st, evs)
      = (Some (SystemExit (Some 0)), STOPPED, evs @ [Stop, Flush, Print (StoppedAt (clk 0))])"
    for cnv lat rate
    using assms(1) by (auto simp: handle_key_event_def)
  have k: "process_step c (Key clk key) p = ?p"
    using assms(2,3) by (simp add: process_step_key h)
  have m: "main_thread ?p = Running ?s" "listener ?p = Some (SystemExit (Some 0))"
    "shared_status ?p = STOPPED"
    by simp_all
  have e: "process_exit ?p = None"
    by (simp add: process_exit_def)
  have i: "process_step c (Key clk' key') ?p = ?p"
    using m(2) by (rule process_step_key_ended)
  have l: "main_thread (process_step c (Iteration ob) ?p)
      = (if obs_playing ob then Running (loop_body c (ob\<lparr>obs_status := STOPPED\<rparr>) ?s)
         else Exited (loop_body c (ob\<lparr>obs_status := STOPPED\<rparr>) ?s))"
    by (simp add: process_step_iteration [OF m(1)])
  have r: "process_exit (process_run c sts ?p) = (if list_ex leaving sts then Some 0 else None)"
    using m(1) by (rule process_run_exit)
  show ?thesis
    unfolding k using h e i l r by (simp only: simp_thms)
qed

theorem stop_command_witness:
  "handle_key_event ntp_conv 2 44100 ex_clock ''q'' (PAUSED, [])
     = (Some (SystemExit (Some 0)), STOPPED, [Stop, Flush, Print (StoppedAt 47244640256)])
   \<and> shared_status (process_step ex_session (Key ex_clock ''q'') ex_process) = STOPPED
   \<and> listener (process_step ex_session (Key ex_clock ''q'') ex_process)
     = Some (SystemExit (Some 0))
   \<and> process_events (process_step ex_session (Key ex_clock ''q'') ex_process)
     = [Stop, Flush, Print (StoppedAt 47244640256)]
   \<and> process_exit (process_step ex_session (Key ex_clock ''q'') ex_process) = None
   \<and> process_exit (process_run ex_session
        [Iteration (ex_obs 171798691840 PLAYING True True), Key ex_clock ''r'',
         Iteration (ex_obs 171798691841 PLAYING True False)]
        (process_step ex_session (Key ex_clock ''q'') ex_process)) = Some 0"
proof -
  have a: "''q'' = ''s'' \<or> ''q'' = ''q''" "listener ex_process = None"
    "main_thread ex_process = Running ex_late"
    by (simp_all add: ex_process_def)
  note t = stop_command [OF a, of ntp_conv 2 44100 ex_clock PAUSED "[]" ex_session ex_clock "''r''"
             "ex_obs 171798691840 PLAYING True True"
             "[Iteration (ex_obs 171798691840 PLAYING True True), Key ex_clock ''r'',
               Iteration (ex_obs 171798691841 PLAYING True False)]"]
  let ?k = "process_step ex_session (Key ex_clock ''q'') ex_process"
  let ?sts = "[Iteration (ex_obs 171798691840 PLAYING True True), Key ex_clock ''r'',
               Iteration (ex_obs 171798691841 PLAYING True False)]"
  have v: "ex_clock 0 = 47244640256" "out ex_late = []"
    by (simp_all add: ex_clock_def ex_late_def)
  have w: "list_ex leaving ?sts"
    by (simp add: ex_obs_def)
  note t1 = t [THEN conjunct1]
  note t2 = t [THEN conjunct2, THEN conjunct1]
  note t3 = t [THEN conjunct2, THEN conjunct2, THEN conjunct1]
  note t6 = t [THEN conjunct2, THEN conjunct2, THEN conjunct2, THEN conjunct2, THEN conjunct2]
  have c1: "handle_key_event ntp_conv 2 44100 ex_clock ''q'' (PAUSED, [])
      = (Some (SystemExit (Some 0)), STOPPED, [Stop, Flush, Print (StoppedAt 47244640256)])"
    using t1 v(1) by simp
  have c2: "shared_status ?k = STOPPED"
    by (simp add: t2)
  have c3: "listener ?k = Some (SystemExit (Some 0))"
    by (simp add: t2)
  have c4: "process_events ?k = [Stop, Flush, Print (StoppedAt 47244640256)]"
    by (simp add: t2 process_events_def v)
  have c5: "process_exit ?k = None"
    by (rule t3)
  have c6: "process_exit (process_run ex_session ?sts ?k) = Some 0"
    by (simp only: t6 w if_True)
  show ?thesis
    using c1 c2 c3 c4 c5 c6 by blast
qed

theorem stop_command_counterexample:
  "listener (process_run ex_session
       [Key ex_clock ''s'', Iteration (ex_obs 171798691840 PLAYING True True)] ex_process)
     = Some (SystemExit (Some 0))
   \<and> process_exit (process_run ex_session
       [Key ex_clock ''s'', Iteration (ex_obs 171798691840 PLAYING True True)] ex_process)
     = None
   \<and> process_events (process_run ex_session
       [Key ex_clock ''s'', Iteration (ex_obs 171798691840 PLAYING True True)] ex_process)
     = [Stop, Flush, Print (StoppedAt 47244640256),
        Print (StatusLine 171798691840 30000 0), Print (KeepaliveLine 171798691840 30000 0),
        Keepalive]"
proof -
  let ?s = "ex_late\<lparr>out := [Stop, Flush, Print (StoppedAt 47244640256)]\<rparr>"
  let ?p = "ex_process\<lparr>shared_status := STOPPED, listener := Some (SystemExit (Some 0)),
              main_thread := Running ?s\<rparr>"
  let ?ob = "ex_obs 171798691840 PLAYING True True"
  have k: "process_step ex_session (Key ex_clock ''s'') ex_process = ?p"
    by (simp add: process_step_def ex_process_def handle_key_event_def ex_clock_def ex_late_def)
  have m: "main_thread ?p = Running ?s" "shared_status ?p = STOPPED"
    by simp_all
  have o: "out (loop_body ex_session (?ob\<lparr>obs_status := STOPPED\<rparr>) ?s)
      = [Stop, Flush, Print (StoppedAt 47244640256),
         Print (StatusLine 171798691840 30000 0), Print (KeepaliveLine 171798691840 30000 0),
         Keepalive]"
    by (simp add: loop_body_fields(1) status_events_def keepalive_events_def chunk_events_def
          ex_session_def ex_obs_def ex_late_def ntp_conv_def tdiv_def)
  have i: "process_step ex_session (Iteration ?ob) ?p
      = ?p\<lparr>main_thread := Running (loop_body ex_session (?ob\<lparr>obs_status := STOPPED\<rparr>) ?s)\<rparr>"
    by (simp add: process_step_iteration [OF m(1)] ex_obs_def)
  show ?thesis
    by (simp add: k i o process_exit_def process_events_def)
qed

subsection \<open>Dumping the clock, and a failed connect\<close>

lemma dec_value_snoc: "dec_value (ds @ [ch]) = 10 * dec_value ds + (of_char ch - 48)"
  by (simp add: dec_value_def)

lemma of_char_digit_char: "d < 10 \<Longrightarrow> of_char (digit_char d) = 48 + d"
  by (simp add: digit_char_def)

lemma dec_value_dec_digits: "dec_value (dec_digits n) = n"
proof (induction n rule: dec_digits.induct)
  case (1 n)
  show ?case
  proof (cases "n < 10")
    case True
    then show ?thesis
      by (subst dec_digits.simps) (simp add: dec_value_def of_char_digit_char)
  next
    case False
    have "dec_value (dec_digits n) = 10 * dec_value (dec_digits (n div 10)) + (of_char (digit_char (n mod 10)) - 48)"
      using False by (subst dec_digits.simps) (simp add: dec_value_snoc)
    also have "\<dots> = 10 * (n div 10) + n mod 10"
      using "1.IH" [OF False] by (simp add: of_char_digit_char)
    finally show ?thesis by simp
  qed
qed

lemma main_dump:
  "file_arg (ntp_file a) = Some f \<Longrightarrow>
   main cnv n a w = ([SetLogLevel (debug a), WriteFile f (py_str (dump_clock w))],
                      Ended (Some (SystemExit None)))"
  by (simp add: main_def)

lemma main_connect_failed:
  "file_arg (ntp_file a) = None \<Longrightarrow> \<not> connect_ok w \<Longrightarrow>
   main cnv n a w = (before_loop cnv a w n @ [Destroy, Print (CannotConnect (server_ip a))],
                      Ended (Some (SystemExit (Some 1))))"
  by (simp add: main_def before_loop_def Let_def)

lemma before_loop_quiet:
  "sent_chunks (before_loop cnv a w n) = []"
  "status_lines (before_loop cnv a w n) = []"
  "keepalive_lines (before_loop cnv a w n) = []"
  "count_list (before_loop cnv a w n) Keepalive = 0"
  "count_list (before_loop cnv a w n) (Connect (port a)) = 1"
  by (simp_all add: before_loop_def split: option.split)

text \<open>
  Claim C9. When an NTP file is given, the script sets the log level, writes the clock
  reading as a decimal number (the digits denote the reading when it is not negative) to
  that file and exits with status 0; no \<open>connect\<close> has been called. When
  \<open>connect\<close> returns false, the script destroys the client, prints a message and
  exits with status 1: nothing of the loop happens, whatever the iterations would
  observe.
\<close>

theorem dump_and_connect_failure:
  "(file_arg (ntp_file a) = Some f \<longrightarrow>
      main cnv n a w = ([SetLogLevel (debug a), WriteFile f (py_str (dump_clock w))],
                         Ended (Some (SystemExit None)))
      \<and> exit_status (Some (SystemExit None)) = 0
      \<and> (\<forall>p. Connect p \<notin> set (fst (main cnv n a w)))
      \<and> (0 \<le> dump_clock w \<longrightarrow> int (dec_value (py_str (dump_clock w))) = dump_clock w))
   \<and> (file_arg (ntp_file a) = None \<and> \<not> connect_ok w \<longrightarrow>
      main cnv n a w = (before_loop cnv a w n @ [Destroy, Print (CannotConnect (server_ip a))],
                         Ended (Some (SystemExit (Some 1))))
      \<and> exit_status (Some (SystemExit (Some 1))) = 1
      \<and> sent_chunks (fst (main cnv n a w)) = []
      \<and> status_lines (fst (main cnv n a w)) = []
      \<and> keepalive_lines (fst (main cnv n a w)) = []
      \<and> count_list (fst (main cnv n a w)) Keepalive = 0
      \<and> main cnv n a (w\<lparr>iterations := its\<rparr>) = main cnv n a w)"
proof (intro conjI impI)
  assume f: "file_arg (ntp_file a) = Some f"
  show "main cnv n a w = ([SetLogLevel (debug a), WriteFile f (py_str (dump_clock w))],
                         Ended (Some (SystemExit None)))"
    by (rule main_dump [OF f])
  show "\<forall>p. Connect p \<notin> set (fst (main cnv n a w))"
    by (simp add: main_dump [OF f])
next
  show "exit_status (Some (SystemExit None)) = 0" by simp
next
  assume "0 \<le> dump_clock w"
  then show "int (dec_value (py_str (dump_clock w))) = dump_clock w"
    by (simp add: py_str_def dec_value_dec_digits)
next
  assume h: "file_arg (ntp_file a) = None \<and> \<not> connect_ok w"
  then have m: "main cnv n a w = (before_loop cnv a w n @ [Destroy, Print (CannotConnect (server_ip a))],
                         Ended (Some (SystemExit (Some 1))))"
    by (simp add: main_connect_failed)
  show "main cnv n a w = (before_loop cnv a w n @ [Destroy, Print (CannotConnect (server_ip a))],
                         Ended (Some (SystemExit (Some 1))))"
    by (rule m)
  show "sent_chunks (fst (main cnv n a w)) = []"
    by (simp add: m sent_chunks_append before_loop_quiet)
  show "status_lines (fst (main cnv n a w)) = []"
    by (simp add: m status_lines_append before_loop_quiet)
  show "keepalive_lines (fst (main cnv n a w)) = []"
    by (simp add: m keepalive_lines_append before_loop_quiet)
  show "count_list (fst (main cnv n a w)) Keepalive = 0"
    by (simp add: m before_loop_quiet)
  have bl: "before_loop cnv a (w\<lparr>iterations := its\<rparr>) n = before_loop cnv a w n"
    by (simp add: before_loop_def)
  have "main cnv n a (w\<lparr>iterations := its\<rparr>) =
          (before_loop cnv a (w\<lparr>iterations := its\<rparr>) n @ [Destroy, Print (CannotConnect (server_ip a))],
           Ended (Some (SystemExit (Some 1))))"
    using h by (intro main_connect_failed) simp_all
  then show "main cnv n a (w\<lparr>iterations := its\<rparr>) = main cnv n a w"
    by (simp add: m bl)
next
  show "exit_status (Some (SystemExit (Some 1))) = 1" by simp
qed

lemma py_str_example: "py_str 42949672960 = ''42949672960''"
  by (simp add: py_str_def dec_digits.simps digit_char_def char_of_eq_iff)

theorem dump_and_connect_failure_witness:
  "file_arg (ntp_file ex_dump_args) = Some ''ntp.txt''
   \<and> main ntp_conv 352 ex_dump_args ex_world
       = ([SetLogLevel 0, WriteFile ''ntp.txt'' ''42949672960''], Ended (Some (SystemExit None)))
   \<and> file_arg (ntp_file ex_args) = None \<and> \<not> connect_ok (ex_world\<lparr>connect_ok := False\<rparr>)
   \<and> snd (main ntp_conv 352 ex_args (ex_world\<lparr>connect_ok := False\<rparr>))
       = Ended (Some (SystemExit (Some 1)))
   \<and> sent_chunks (fst (main ntp_conv 352 ex_args (ex_world\<lparr>connect_ok := False\<rparr>))) = []"
proof -
  have a: "file_arg (ntp_file ex_dump_args) = Some ''ntp.txt''"
    by (simp add: ex_dump_args_def)
  have b: "file_arg (ntp_file ex_args) = None \<and> \<not> connect_ok (ex_world\<lparr>connect_ok := False\<rparr>)"
    by (simp add: ex_args_def)
  have d: "debug ex_dump_args = 0" "dump_clock ex_world = 42949672960"
    by (simp_all add: ex_dump_args_def ex_args_def ex_world_def)
  note t1 = dump_and_connect_failure [of ex_dump_args "''ntp.txt''" ntp_conv 352 ex_world "[]",
              THEN conjunct1, rule_format, OF a]
  note t2 = dump_and_connect_failure [of ex_args "''x''" ntp_conv 352
              "ex_world\<lparr>connect_ok := False\<rparr>" "[]", THEN conjunct2, rule_format, OF b]
  have m1: "main ntp_conv 352 ex_dump_args ex_world =
      ([SetLogLevel 0, WriteFile ''ntp.txt'' ''42949672960''], Ended (Some (SystemExit None)))"
    using t1 by (simp add: d py_str_example)
  have m2: "snd (main ntp_conv 352 ex_args (ex_world\<lparr>connect_ok := False\<rparr>))
       = Ended (Some (SystemExit (Some 1)))"
    using t2 by simp
  have m3: "sent_chunks (fst (main ntp_conv 352 ex_args (ex_world\<lparr>connect_ok := False\<rparr>))) = []"
    using t2 by (elim conjE)
  show ?thesis
    using a b m1 m2 m3 by (simp only: simp_thms)
qed

end
